theory Spec2Isabelle
  imports Complex_Main
begin

section \<open>Data model of \<open>factors/models.py\<close>\<close>

text \<open>
  The class \<open>LifeTable\<close> of \<open>src/factors/models.py\<close> is embedded function by function.
  Python values that the code treats by cases become datatypes, the attributes of
  \<open>self\<close> become two records (the tables loaded by \<open>__init__\<close>, which no method writes,
  and the attributes the methods assign), every \<open>raise\<close> is a value \<open>Inl e\<close>, and
  \<open>print\<close> appends a line to a list of printed lines.

  Numbers are real numbers: the arithmetic of the code is IEEE double arithmetic, whose
  rounding errors and infinities are not modelled. The one special value that is
  modelled is NaN, which pandas produces deliberately (\<open>shift\<close>, index alignment) and
  removes again (\<open>fillna\<close>); it is the value \<open>None\<close> of \<open>real option\<close>.
\<close>

subsection \<open>Sex, errors, keyword arguments\<close>

text \<open>
  A sex argument is the constant \<open>MALE\<close>, the constant \<open>FEMALE\<close> (both imported from
  \<open>settings\<close>) or any other Python value.
\<close>

datatype sex = MALE | FEMALE | OtherSex string

text \<open>
  The exceptions the embedded methods can raise. \<open>AssertionError\<close> carries the message of
  the \<open>assert\<close> statement.
\<close>

datatype error =
    AssertionError string
  | KeyError
  | AttributeError
  | UnboundLocalError
  | ValueError
  | TypeError

definition InvalidSexError :: error where
  "InvalidSexError = AssertionError ''sex insured should be either M of F!''"

definition DeferralExceedsTableError :: error where
  "DeferralExceedsTableError =
     AssertionError ''Error: deferral period exceeds number of table rows.''"

text \<open>
  The third positional argument of \<open>cf_ay_avg\<close> is never used by it; callers pass
  nothing, a pension age, or (from \<open>ay_avg\<close>) a string.
\<close>

datatype pyval = PyNone | PyInt int | PyStr string

text \<open>
  \<open>**kwargs\<close>: the keywords the methods read. \<open>None\<close> is a keyword that is absent (or,
  for \<open>intrest\<close> and \<open>hx_pd\<close> in the generators, passed as \<open>None\<close>: they read both
  with \<open>kwargs.get(key, None)\<close>). In the keywords of the dispatcher \<open>cf\<close>, which passes
  \<open>hx_pd\<close> itself, \<open>kw_hx_pd = Some h\<close> is a caller who passes \<open>hx_pd\<close> too.
\<close>

record kwargs =
  kw_intrest :: "real option"
  kw_hx_pd :: "string option"
  kw_postnumerando :: "bool option"
  kw_insurance_type :: "string option"

definition no_kwargs :: kwargs where
  "no_kwargs = \<lparr>kw_intrest = None, kw_hx_pd = None, kw_postnumerando = None,
                 kw_insurance_type = None\<rparr>"

subsection \<open>Series\<close>

text \<open>
  A pandas \<open>Series\<close> of floats whose index is \<open>0, 1, \<dots>, n - 1\<close>: the list of its values,
  \<open>None\<close> for NaN. Arithmetic on two values gives NaN when one of them is NaN.
\<close>

type_synonym series = "real option list"

fun fmul :: "real option \<Rightarrow> real option \<Rightarrow> real option" where
  "fmul (Some x) (Some y) = Some (x * y)"
| "fmul _ _ = None"

fun fdiv :: "real option \<Rightarrow> real option \<Rightarrow> real option" where
  "fdiv (Some x) (Some y) = Some (x / y)"
| "fdiv _ _ = None"

fun fadd :: "real option \<Rightarrow> real option \<Rightarrow> real option" where
  "fadd (Some x) (Some y) = Some (x + y)"
| "fadd _ _ = None"

fun fsub :: "real option \<Rightarrow> real option \<Rightarrow> real option" where
  "fsub (Some x) (Some y) = Some (x - y)"
| "fsub _ _ = None"

text \<open>
  \<open>a op b\<close> on two series aligns them on their index: the result has the longer index,
  and NaN where one of the two has no value.
\<close>

definition series_binop ::
  "(real option \<Rightarrow> real option \<Rightarrow> real option) \<Rightarrow> series \<Rightarrow> series \<Rightarrow> series" where
  "series_binop f a b =
     map (\<lambda>i. if i < length a \<and> i < length b then f (a ! i) (b ! i) else None)
       [0..<max (length a) (length b)]"

definition series_mul :: "series \<Rightarrow> series \<Rightarrow> series" where
  "series_mul = series_binop fmul"

definition series_add :: "series \<Rightarrow> series \<Rightarrow> series" where
  "series_add = series_binop fadd"

definition series_sub :: "series \<Rightarrow> series \<Rightarrow> series" where
  "series_sub = series_binop fsub"

text \<open>A series and a scalar.\<close>

definition series_scale :: "series \<Rightarrow> real \<Rightarrow> series" where
  "series_scale a c = map (\<lambda>v. fmul v (Some c)) a"

definition series_div :: "series \<Rightarrow> real \<Rightarrow> series" where
  "series_div a c = map (\<lambda>v. fdiv v (Some c)) a"

text \<open>
  \<open>s.shift(k)\<close>: the value at position \<open>i\<close> becomes the one that was at \<open>i - k\<close>, NaN
  where there was none. \<open>s.fillna(0)\<close> replaces NaN by 0.
\<close>

definition shift :: "series \<Rightarrow> int \<Rightarrow> series" where
  "shift s k =
     map (\<lambda>i. let j = int i - k in
               if 0 \<le> j \<and> j < int (length s) then s ! nat j else None)
       [0..<length s]"

definition fillna0 :: "series \<Rightarrow> series" where
  "fillna0 s = map (\<lambda>v. case v of None \<Rightarrow> Some 0 | Some x \<Rightarrow> Some x) s"

text \<open>The builtin \<open>sum\<close> over the values of a series, starting from 0.\<close>

definition series_sum :: "series \<Rightarrow> real option" where
  "series_sum s = foldl fadd (Some 0) s"

subsection \<open>The tables of a tariff\<close>

text \<open>
  A life table (\<open>self.lx[sex]['lx']\<close>) is the list of its \<open>lx\<close> values; its rows are the
  ages \<open>0, 1, 2, \<dots>\<close>, so that the row at position \<open>a\<close> is the row of age \<open>a\<close>, which
  is what the positional \<open>shift(-age)\<close> of \<open>cf_annuity\<close> presupposes. \<open>ix\<close> is the lookup
  \<open>.ix[age]\<close> by label, which raises \<open>KeyError\<close> for an age that is no row.
\<close>

type_synonym life_table = "real list"

definition ix :: "life_table \<Rightarrow> int \<Rightarrow> error + real" where
  "ix tbl a = (if 0 \<le> a \<and> a < int (length tbl) then Inr (tbl ! nat a) else Inl KeyError)"

text \<open>
  The hazard table \<open>self.hx[sex]\<close> is only ever read by label: a map from age to \<open>hx\<close>.
\<close>

definition ix_map :: "(int \<rightharpoonup> real) \<Rightarrow> int \<Rightarrow> error + real" where
  "ix_map m a = (case m a of None \<Rightarrow> Inl KeyError | Some v \<Rightarrow> Inr v)"

text \<open>One entry \<open>self.adjust[sex][insurance_type]\<close> of the adjustment table.\<close>

record adjustment =
  CX1 :: int
  CX2 :: int
  CX3 :: int
  fnett :: real
  fcorr :: real
  fOTS :: real

text \<open>
  What \<open>__init__\<close> loads and no method writes: \<open>self.params\<close> (\<open>delta\<close> and \<open>round\<close>),
  \<open>self.lx\<close>, \<open>self.hx\<close>, \<open>self.adjust\<close> and \<open>self.ukv\<close> (\<open>None\<close> when the tariff has no
  exchange table). \<open>get_lx\<close> and \<open>get_hx\<close> build dictionaries with the two keys \<open>MALE\<close>
  and \<open>FEMALE\<close>; the value of \<open>lx\<close> and \<open>hx\<close> at another sex is never read.
\<close>

record tables =
  params_delta :: int
  params_round :: int
  lx :: "sex \<Rightarrow> life_table"
  hx :: "sex \<Rightarrow> (int \<rightharpoonup> real)"
  adjust :: "sex \<times> string \<rightharpoonup> adjustment"
  ukv :: "(sex \<times> int \<times> real \<rightharpoonup> real) option"

text \<open>\<open>self.lx[sex]\<close> and \<open>self.hx[sex]\<close>: a dictionary lookup with the keys \<open>MALE\<close>, \<open>FEMALE\<close>.\<close>

fun by_sex :: "(sex \<Rightarrow> 'a) \<Rightarrow> sex \<Rightarrow> error + 'a" where
  "by_sex d MALE = Inr (d MALE)"
| "by_sex d FEMALE = Inr (d FEMALE)"
| "by_sex d (OtherSex v) = Inl KeyError"

definition adjust_of :: "tables \<Rightarrow> sex \<Rightarrow> string \<Rightarrow> error + adjustment" where
  "adjust_of t s ty = (case adjust t (s, ty) of None \<Rightarrow> Inl KeyError | Some a \<Rightarrow> Inr a)"

text \<open>
  The names imported from the modules \<open>settings\<close> and \<open>utils\<close>, which are not in the
  source file: the age range \<open>range(LOWAGE, UPAGE)\<close> of the factor tables, the age
  \<open>MAXAGE\<close> at which \<open>npx\<close> clamps, the list \<open>INSURANCE_IDS\<close>, and the function
  \<open>prae_to_continuous\<close> on series.
\<close>

record settings =
  LOWAGE :: int
  UPAGE :: int
  MAXAGE :: int
  INSURANCE_IDS :: "string list"
  prae_to_continuous :: "series \<Rightarrow> series"

text \<open>Sequencing of computations that may raise.\<close>

definition bind :: "error + 'a \<Rightarrow> ('a \<Rightarrow> error + 'b) \<Rightarrow> error + 'b" where
  "bind m f = (case m of Inl e \<Rightarrow> Inl e | Inr x \<Rightarrow> f x)"

section \<open>Mortality\<close>

text \<open>
  \<^verbatim>\<open>
  def npx(self, age, sex, nyears):
      future_age = np.minimum(age + nyears, MAXAGE)
      current_age = np.minimum(age, MAXAGE)
      return (float(self.lx[sex].ix[future_age]['lx']) /
              self.lx[sex].ix[current_age]['lx'])
  \<close>
  Where \<open>lx\<close> is 0 at the current age the code returns the float nan or an infinity,
  which is no real number: the quotient below is the code's result for a denominator
  that is not 0 only, and the statements about \<open>npx\<close> are for such a denominator.
\<close>

definition npx :: "settings \<Rightarrow> tables \<Rightarrow> int \<Rightarrow> sex \<Rightarrow> int \<Rightarrow> error + real" where
  "npx env t age s nyears =
     (let future_age = min (age + nyears) (MAXAGE env);
          current_age = min age (MAXAGE env)
      in bind (by_sex (lx t) s) (\<lambda>tbl.
         bind (ix tbl future_age) (\<lambda>num.
         bind (by_sex (lx t) s) (\<lambda>tbl'.
         bind (ix tbl' current_age) (\<lambda>den.
         Inr (num / den))))))"

definition qx :: "settings \<Rightarrow> tables \<Rightarrow> int \<Rightarrow> sex \<Rightarrow> error + real" where
  "qx env t age s = bind (npx env t age s 1) (\<lambda>p. Inr (1 - p))"

definition nqx :: "settings \<Rightarrow> tables \<Rightarrow> int \<Rightarrow> sex \<Rightarrow> int \<Rightarrow> error + real" where
  "nqx env t age s nyears =
     bind (npx env t age s (nyears - 1)) (\<lambda>p.
     bind (npx env t age s nyears) (\<lambda>q. Inr (p - q)))"

section \<open>Cash flows\<close>

text \<open>
  A cash-flow record is the dictionary the generators return: always \<open>payments\<close>, and
  \<open>insurance_id\<close>, \<open>age\<close>, \<open>pension_age\<close> when the generator (or the dispatcher \<open>cf\<close>)
  sets them.
\<close>

record cashflow =
  insurance_id :: "string option"
  payments :: series
  cf_age :: "int option"
  cf_pension_age :: "int option"

definition only_payments :: "series \<Rightarrow> cashflow" where
  "only_payments p = \<lparr>insurance_id = None, payments = p, cf_age = None, cf_pension_age = None\<rparr>"

text \<open>
  \<^verbatim>\<open>
  def cf_annuity(self, age, lx, defer=0):
      nrows = len(lx)
      assert nrows > defer, "Error: deferral period exceeds number of table rows."
      payments = pd.Series(defer * [0] + (nrows - defer) * [1])
      out = (payments * lx.shift(-age) / lx.ix[age]).fillna(0)
      out.index.rename('year', inplace=True)
      return out
  \<close>
  A list times a negative number is the empty list, as \<open>replicate (nat defer)\<close> is.
\<close>

definition cf_annuity :: "int \<Rightarrow> life_table \<Rightarrow> int \<Rightarrow> error + series" where
  "cf_annuity age tbl defer =
     (let nrows = int (length tbl) in
      if nrows > defer then
        (let payments = replicate (nat defer) (Some 0) @ replicate (nat (nrows - defer)) (Some 1);
             shifted = shift (map Some tbl) (- age)
         in bind (ix tbl age) (\<lambda>d.
            Inr (fillna0 (series_div (series_mul payments shifted) d))))
      else Inl DeferralExceedsTableError)"

text \<open>
  \<^verbatim>\<open>
  def cf_ay_avg(self, age_insured, sex_insured, pension_age=None, **kwargs):
      insurance_type = kwargs.get('insurance_type', 'partner')
      assert sex_insured in (MALE, FEMALE), "sex insured should be either M of F!"
      sex_beneficiary = FEMALE if sex_insured == MALE else MALE
      delta = int(self.params['delta'])
      sign = 1 if sex_insured == MALE else -1
      gamma3 = self.adjust[sex_beneficiary][insurance_type]['CX3']
      tbl_beneficiary = (self.lx[FEMALE]['lx'] if sex_insured == MALE
                         else self.lx[MALE]['lx'])
      cf_ay_avg = (self.cf_annuity(age_insured - sign * delta + gamma3,
                   tbl_beneficiary) + self.cf_annuity(age_insured +
                   1 - sign * delta + gamma3, tbl_beneficiary)) / 2.
      cf_ay_avg = prae_to_continuous(cf_ay_avg)
      return {'payments': cf_ay_avg}
  \<close>
\<close>

definition cf_ay_avg ::
  "settings \<Rightarrow> tables \<Rightarrow> int \<Rightarrow> sex \<Rightarrow> pyval \<Rightarrow> kwargs \<Rightarrow> error + cashflow" where
  "cf_ay_avg env t age_insured sex_insured pension_age kw =
     (let insurance_type = (case kw_insurance_type kw of None \<Rightarrow> ''partner'' | Some ty \<Rightarrow> ty) in
      if sex_insured \<in> {MALE, FEMALE} then
        (let sex_beneficiary = (if sex_insured = MALE then FEMALE else MALE);
             delta = params_delta t;
             sign = (if sex_insured = MALE then 1 else - 1)
         in bind (adjust_of t sex_beneficiary insurance_type) (\<lambda>adj.
            let gamma3 = CX3 adj;
                tbl_beneficiary = (if sex_insured = MALE then lx t FEMALE else lx t MALE)
            in bind (cf_annuity (age_insured - sign * delta + gamma3) tbl_beneficiary 0) (\<lambda>a0.
               bind (cf_annuity (age_insured + 1 - sign * delta + gamma3) tbl_beneficiary 0) (\<lambda>a1.
               Inr (only_payments
                      (prae_to_continuous env (series_div (series_add a0 a1) 2)))))))
      else Inl InvalidSexError)"

text \<open>
  \<^verbatim>\<open>
  def cf_retirement_pension(self, age_insured, sex_insured, pension_age, **kwargs):
      postnumerando = (kwargs['postnumerando'] if 'postnumerando' in kwargs else False)
      tbl_insured = self.lx[sex_insured]['lx']
      alpha1 = self.adjust[sex_insured]['retire']['CX1']
      alpha2 = self.adjust[sex_insured]['retire']['CX2']
      fnett, fcorr, fOTS = (self.adjust[sex_insured]['retire'][item]
                            for item in ['fnett', 'fcorr', 'fOTS'])
      cf = self.cf_annuity(age_insured + alpha2, tbl_insured,
                           defer=pension_age - age_insured + postnumerando)
      cf = cf * self.npx(age_insured + alpha1, sex_insured, pension_age - age_insured)
      cf = cf / self.npx(age_insured + alpha2, sex_insured, pension_age - age_insured)
      cf = prae_to_continuous(cf)
      return {'payments': cf * fnett * fcorr * fOTS}
  \<close>
\<close>

definition cf_retirement_pension ::
  "settings \<Rightarrow> tables \<Rightarrow> int \<Rightarrow> sex \<Rightarrow> int \<Rightarrow> kwargs \<Rightarrow> error + cashflow" where
  "cf_retirement_pension env t age_insured sex_insured pension_age kw =
     (let postnumerando = (case kw_postnumerando kw of None \<Rightarrow> False | Some b \<Rightarrow> b) in
      bind (by_sex (lx t) sex_insured) (\<lambda>tbl_insured.
      bind (adjust_of t sex_insured ''retire'') (\<lambda>adj.
      let alpha1 = CX1 adj; alpha2 = CX2 adj in
      bind (cf_annuity (age_insured + alpha2) tbl_insured
              (pension_age - age_insured + (if postnumerando then 1 else 0))) (\<lambda>c0.
      bind (npx env t (age_insured + alpha1) sex_insured (pension_age - age_insured)) (\<lambda>p1.
      bind (npx env t (age_insured + alpha2) sex_insured (pension_age - age_insured)) (\<lambda>p2.
      let c = prae_to_continuous env (series_div (series_scale c0 p1) p2) in
      Inr (only_payments
             (series_scale (series_scale (series_scale c (fnett adj)) (fcorr adj)) (fOTS adj)))))))))"

text \<open>
  \<^verbatim>\<open>
  def cf_defined_partner(self, age_insured, sex_insured, pension_age, **kwargs):
      assert sex_insured in (MALE, FEMALE), "sex insured should be either M of F!"
      sex_beneficiary = FEMALE if sex_insured == MALE else MALE
      tbl_insured = self.lx[sex_insured]['lx']
      tbl_beneficiary = self.lx[sex_beneficiary]['lx']
      delta = int(self.params['delta'])
      fnett, fcorr, fOTS = (self.adjust[sex_insured]['partner'][item] for item in [...])
      alpha1 = self.adjust[sex_insured]['partner']['CX1']
      alpha2 = self.adjust[sex_insured]['partner']['CX2']
      gamma3 = self.adjust[sex_beneficiary]['partner']['CX3']
      sign = 1 if sex_insured == MALE else -1
      ay = self.cf_annuity(age_insured - sign * delta + gamma3, tbl_beneficiary)
      ax = self.cf_annuity(age_insured + alpha1, tbl_insured)
      axy = ax.multiply(ay)
      f1 = self.cf_annuity(age_insured + alpha1, tbl_insured, pension_age - age_insured)
      f1 = f1 * self.cf_annuity(age_insured - sign * delta + gamma3,
                                tbl_beneficiary, pension_age - age_insured)
      f2 = self.cf_annuity(age_insured + alpha2, tbl_insured, pension_age - age_insured)
      f2 = f2 * self.cf_annuity(age_insured - sign * delta + gamma3,
                                tbl_beneficiary, pension_age - age_insured)
      temp1 = ((float(tbl_insured.ix[pension_age + alpha1]) / tbl_insured.ix[age_insured + alpha1]))
      temp2 = ((float(tbl_insured.ix[age_insured + alpha2]) / tbl_insured.ix[pension_age + alpha2]))
      f2 = f2 * temp1 * temp2
      out = fnett * fcorr * fOTS * (ay - axy + (f1 - f2))
      return {'payments': out}
  \<close>
\<close>

definition cf_defined_partner ::
  "settings \<Rightarrow> tables \<Rightarrow> int \<Rightarrow> sex \<Rightarrow> int \<Rightarrow> kwargs \<Rightarrow> error + cashflow" where
  "cf_defined_partner env t age_insured sex_insured pension_age kw =
     (if sex_insured \<in> {MALE, FEMALE} then
        (let sex_beneficiary = (if sex_insured = MALE then FEMALE else MALE) in
         bind (by_sex (lx t) sex_insured) (\<lambda>tbl_insured.
         bind (by_sex (lx t) sex_beneficiary) (\<lambda>tbl_beneficiary.
         let delta = params_delta t in
         bind (adjust_of t sex_insured ''partner'') (\<lambda>adj.
         let alpha1 = CX1 adj; alpha2 = CX2 adj in
         bind (adjust_of t sex_beneficiary ''partner'') (\<lambda>adj_b.
         let gamma3 = CX3 adj_b;
             sign = (if sex_insured = MALE then 1 else - 1);
             defer = pension_age - age_insured
         in
         bind (cf_annuity (age_insured - sign * delta + gamma3) tbl_beneficiary 0) (\<lambda>ay.
         bind (cf_annuity (age_insured + alpha1) tbl_insured 0) (\<lambda>ax.
         let axy = series_mul ax ay in
         bind (cf_annuity (age_insured + alpha1) tbl_insured defer) (\<lambda>f1a.
         bind (cf_annuity (age_insured - sign * delta + gamma3) tbl_beneficiary defer) (\<lambda>f1b.
         let f1 = series_mul f1a f1b in
         bind (cf_annuity (age_insured + alpha2) tbl_insured defer) (\<lambda>f2a.
         bind (cf_annuity (age_insured - sign * delta + gamma3) tbl_beneficiary defer) (\<lambda>f2b.
         let f2 = series_mul f2a f2b in
         bind (ix tbl_insured (pension_age + alpha1)) (\<lambda>n1.
         bind (ix tbl_insured (age_insured + alpha1)) (\<lambda>d1.
         let temp1 = n1 / d1 in
         bind (ix tbl_insured (age_insured + alpha2)) (\<lambda>n2.
         bind (ix tbl_insured (pension_age + alpha2)) (\<lambda>d2.
         let temp2 = n2 / d2;
             f2' = series_scale (series_scale f2 temp1) temp2
         in Inr (only_payments
                   (series_scale (series_add (series_sub ay axy) (series_sub f1 f2'))
                      (fnett adj * fcorr adj * fOTS adj))))))))))))))))))
      else Inl InvalidSexError)"

text \<open>
  \<^verbatim>\<open>
  def cf_defined_one_year_risk(self, age_insured, sex_insured, pension_age, **kwargs):
      alpha1 = self.adjust[sex_insured]['partner']['CX1']
      fnett, fcorr, fOTS = (self.adjust[sex_insured]['partner'][item] for item in [...])
      assert sex_insured in (MALE, FEMALE), "sex insured should be either M of F!"
      cf = self.cf_ay_avg(age_insured, sex_insured, insurance_type='partner')
      qx = self.qx(age_insured + alpha1, sex_insured)
      cf = cf['payments'] * qx * fnett * fcorr * fOTS
      return {'insurance_id': 'NPTL-B', 'payments': cf}
  \<close>
\<close>

definition cf_defined_one_year_risk ::
  "settings \<Rightarrow> tables \<Rightarrow> int \<Rightarrow> sex \<Rightarrow> int \<Rightarrow> kwargs \<Rightarrow> error + cashflow" where
  "cf_defined_one_year_risk env t age_insured sex_insured pension_age kw =
     bind (adjust_of t sex_insured ''partner'') (\<lambda>adj.
     let alpha1 = CX1 adj in
     if sex_insured \<in> {MALE, FEMALE} then
       bind (cf_ay_avg env t age_insured sex_insured PyNone
               (no_kwargs\<lparr>kw_insurance_type := Some ''partner''\<rparr>)) (\<lambda>c.
       bind (qx env t (age_insured + alpha1) sex_insured) (\<lambda>q.
       Inr ((only_payments
               (series_scale (series_scale (series_scale (series_scale (payments c) q)
                  (fnett adj)) (fcorr adj)) (fOTS adj)))
            \<lparr>insurance_id := Some ''NPTL-B''\<rparr>)))
     else Inl InvalidSexError)"

text \<open>
  The expression
  \<^verbatim>\<open>(self.hx[sex].ix[age].values[0] + self.hx[sex].ix[age + 1].values[0]) / 2.\<close>
  which \<open>cf_undefined_one_year_risk\<close> and \<open>create_lookup_table\<close> both evaluate.
\<close>

definition hx_avg :: "tables \<Rightarrow> sex \<Rightarrow> int \<Rightarrow> error + real" where
  "hx_avg t s age =
     bind (by_sex (hx t) s) (\<lambda>m0.
     bind (ix_map m0 age) (\<lambda>h0.
     bind (by_sex (hx t) s) (\<lambda>m1.
     bind (ix_map m1 (age + 1)) (\<lambda>h1.
     Inr ((h0 + h1) / 2)))))"

text \<open>
  \<^verbatim>\<open>
  def cf_undefined_one_year_risk(self, age_insured, sex_insured, pension_age, **kwargs):
      hx_avg = (self.hx[sex_insured].ix[age_insured].values[0]
                + self.hx[sex_insured].ix[age_insured + 1].values[0]) / 2.
      cf_defined_one_year_risk = self.cf_defined_one_year_risk(age_insured, sex_insured,
                                                               pension_age, **kwargs)
      cf = hx_avg * cf_defined_one_year_risk['payments']
      return {'insurance_id': 'NPTL-O', 'payments': cf}
  \<close>
\<close>

definition cf_undefined_one_year_risk ::
  "settings \<Rightarrow> tables \<Rightarrow> int \<Rightarrow> sex \<Rightarrow> int \<Rightarrow> kwargs \<Rightarrow> error + cashflow" where
  "cf_undefined_one_year_risk env t age_insured sex_insured pension_age kw =
     bind (hx_avg t sex_insured age_insured) (\<lambda>h.
     bind (cf_defined_one_year_risk env t age_insured sex_insured pension_age kw) (\<lambda>c.
     Inr ((only_payments (series_scale (payments c) h))\<lparr>insurance_id := Some ''NPTL-O''\<rparr>)))"

section \<open>The attributes the methods assign\<close>

text \<open>
  One row of the table \<open>create_lookup_table\<close> returns: its index \<open>(gender, age)\<close> and its
  columns \<open>ay_avg\<close>, \<open>hx_avg\<close>, \<open>alpha1\<close>, \<open>factor\<close>, \<open>cf\<close>.
\<close>

record lookup_row =
  row_gender :: sex
  row_age :: int
  row_ay_avg :: "real option"
  row_hx_avg :: real
  row_alpha1 :: int
  row_factor :: real
  row_cf :: "real option"

text \<open>
  The data frame that \<open>calculate_cashflows\<close> builds and \<open>calculate_factors\<close> turns into
  the factor matrix: its rows \<open>(insurance_id, sex_insured, age_insured)\<close>, the column
  \<open>cf\<close> and the column \<open>tar\<close> (\<open>None\<close> for a column the frame does not have), and
  whether \<open>set_index\<close> has made the three key columns its index.
\<close>

record frame =
  frame_rows :: "(string \<times> sex \<times> int) list"
  col_cf :: "cashflow list option"
  col_tar :: "real option list option"
  indexed :: bool

text \<open>
  The attributes \<open>__init__\<close> sets to \<open>None\<close> and the methods assign, the lines printed so
  far, and two counters that the code does not have: \<open>rebuilds\<close> lists the interest of
  every call of \<open>create_lookup_table\<close> so far, \<open>cf_calls\<close> counts the calls of \<open>cf\<close>.
\<close>

record state =
  self_pension_age :: "int option"
  self_intrest :: "real option"
  self_lookup :: "lookup_row list option"
  self_cfs :: "frame option"
  self_factors :: "frame option"
  self_yield_curve :: "real list option"
  stdout :: "string list"
  rebuilds :: "real list"
  cf_calls :: nat

definition init_state :: state where
  "init_state = \<lparr>self_pension_age = None, self_intrest = None, self_lookup = None,
                  self_cfs = None, self_factors = None, self_yield_curve = None,
                  stdout = [], rebuilds = [], cf_calls = 0\<rparr>"

text \<open>A function applied to each element in turn, up to the first one that raises.\<close>

fun emap :: "('a \<Rightarrow> error + 'b) \<Rightarrow> 'a list \<Rightarrow> error + 'b list" where
  "emap f [] = Inr []"
| "emap f (x # xs) = bind (f x) (\<lambda>y. bind (emap f xs) (\<lambda>ys. Inr (y # ys)))"

fun smap ::
  "('a \<Rightarrow> state \<Rightarrow> (error + 'b) \<times> state) \<Rightarrow> 'a list \<Rightarrow> state \<Rightarrow> (error + 'b list) \<times> state"
  where
  "smap f [] s = (Inr [], s)"
| "smap f (x # xs) s =
     (case f x s of
        (Inl e, s1) \<Rightarrow> (Inl e, s1)
      | (Inr y, s1) \<Rightarrow>
          (case smap f xs s1 of
             (Inl e, s2) \<Rightarrow> (Inl e, s2)
           | (Inr ys, s2) \<Rightarrow> (Inr (y # ys), s2)))"

section \<open>Present value\<close>

text \<open>
  Modelled from the spec: \<open>x_to_series\<close> of the module \<open>utils\<close>, which is not in the
  source file. For a single rate it is "a single flat rate broadcast to all years", a
  sequence "of the same length as the payment stream". Interest is a single rate
  throughout this development.
\<close>

definition x_to_series :: "real \<Rightarrow> nat \<Rightarrow> real list" where
  "x_to_series intrest n = replicate n intrest"

text \<open>
  The builtin \<open>round(x, n)\<close> of Python 2 (the source is Python 2: it adds two \<open>range\<close>s
  and calls \<open>iteritems\<close>): to \<open>n\<close> decimals, a tie away from zero; NaN stays NaN.
\<close>

definition py_round :: "real option \<Rightarrow> int \<Rightarrow> real option" where
  "py_round v n =
     map_option
       (\<lambda>x. let p = (if 0 \<le> n then 10 ^ nat n else 1 / 10 ^ nat (- n)) :: real
            in sgn x * real_of_int \<lfloor>\<bar>x\<bar> * p + 1 / 2\<rfloor> / p) v"

text \<open>
  \<open>lambda r: 1. / (1 + r / 100.)\<close>, and the two powers \<open>pv\<close> takes of it: to a whole
  year, and to a year and a half (NaN for a negative base). At \<open>r = -100\<close> the code
  divides by zero; the statements about discounting are for \<open>r > -100\<close>.
\<close>

definition discount :: "real \<Rightarrow> real" where
  "discount r = 1 / (1 + r / 100)"

definition pow_year :: "real \<Rightarrow> nat \<Rightarrow> real option" where
  "pow_year b y = Some (b ^ y)"

definition pow_half_year :: "real \<Rightarrow> nat \<Rightarrow> real option" where
  "pow_half_year b y = (if b < 0 then None else Some (b powr (real y + 1 / 2)))"

text \<open>
  \<^verbatim>\<open>
  def pv(self, cf, intrest):
      cfs = cf['payments']
      insurance_id = cf['insurance_id']
      year = pd.Series(cfs.index)
      self.yield_curve = x_to_series(intrest, len(cfs))
      if insurance_id in ['OPLL', 'NPLL-B', 'ay_avg']:
          pv_factors = self.yield_curve.map(lambda r: 1. / (1 + r / 100.))**year
      elif insurance_id in ['NPTL-B', 'NPTL-O']:
          pv_factors = self.yield_curve.map(lambda r: 1. / (1 + r / 100.))**(year + 0.5)
      elif insurance_id in ['NPLL-O', 'NPLLRS', 'NPLLRU']:
          nyears_till_pension_age = cf['pension_age'] - cf['age']
          year = year + 0.5 * (year <= nyears_till_pension_age)
          pv_factors = self.yield_curve.map(lambda r: 1. / (1 + r / 100.))**year
      else:
          print("---ERROR: cannot process insurance_id: {0}".format(insurance_id))
      present_value = sum(cfs * pv_factors)
      rounding = self.params['round']
      return round(present_value, rounding)
  \<close>
  After the \<open>else\<close> branch \<open>pv_factors\<close> is not bound, and the next line raises.
\<close>

definition pv :: "tables \<Rightarrow> cashflow \<Rightarrow> real \<Rightarrow> state \<Rightarrow> (error + real option) \<times> state" where
  "pv t cf intrest s =
     (let cfs = payments cf in
      case insurance_id cf of
        None \<Rightarrow> (Inl KeyError, s)
      | Some iid \<Rightarrow>
          (let year = [0..<length cfs];
               yield_curve = x_to_series intrest (length cfs);
               s1 = s\<lparr>self_yield_curve := Some yield_curve\<rparr>;
               present_value = (\<lambda>pv_factors.
                 (Inr (py_round (series_sum (series_mul cfs pv_factors)) (params_round t)), s1))
           in if iid \<in> {''OPLL'', ''NPLL-B'', ''ay_avg''} then
                present_value (map2 (\<lambda>r y. pow_year (discount r) y) yield_curve year)
              else if iid \<in> {''NPTL-B'', ''NPTL-O''} then
                present_value (map2 (\<lambda>r y. pow_half_year (discount r) y) yield_curve year)
              else if iid \<in> {''NPLL-O'', ''NPLLRS'', ''NPLLRU''} then
                (case cf_pension_age cf of
                   None \<Rightarrow> (Inl KeyError, s1)
                 | Some pa \<Rightarrow>
                     (case cf_age cf of
                        None \<Rightarrow> (Inl KeyError, s1)
                      | Some a \<Rightarrow>
                          (let nyears_till_pension_age = pa - a in
                           present_value
                             (map2 (\<lambda>r y. if int y \<le> nyears_till_pension_age
                                           then pow_half_year (discount r) y
                                           else pow_year (discount r) y)
                                yield_curve year))))
              else (Inl UnboundLocalError,
                    s1\<lparr>stdout := stdout s1 @ [''---ERROR: cannot process insurance_id: '' @ iid]\<rparr>)))"

text \<open>
  \<^verbatim>\<open>
  def ay_avg(self, age_insured, sex_insured, intrest, insurance_type='partner'):
      cf_ay_avg = self.cf_ay_avg(age_insured, sex_insured, insurance_type)
      return self.pv({'insurance_id': 'OPLL', 'payments': cf_ay_avg['payments']}, intrest)
  \<close>
  The third positional parameter of \<open>cf_ay_avg\<close> is \<open>pension_age\<close>.
\<close>

definition ay_avg ::
  "settings \<Rightarrow> tables \<Rightarrow> int \<Rightarrow> sex \<Rightarrow> real \<Rightarrow> string \<Rightarrow> state \<Rightarrow> (error + real option) \<times> state"
  where
  "ay_avg env t age_insured sex_insured intrest insurance_type s =
     (case cf_ay_avg env t age_insured sex_insured (PyStr insurance_type) no_kwargs of
        Inl e \<Rightarrow> (Inl e, s)
      | Inr c \<Rightarrow> pv t ((only_payments (payments c))\<lparr>insurance_id := Some ''OPLL''\<rparr>) intrest s)"

section \<open>The lookup table of the undefined partner\<close>

text \<open>
  \<^verbatim>\<open>
  def create_lookup_table(self, intrest):
      s = pd.DataFrame({'gender': (UPAGE - LOWAGE) * [MALE] + (UPAGE - LOWAGE) * [FEMALE],
                        'age': range(LOWAGE, UPAGE) + range(LOWAGE, UPAGE)})
      s['ay_avg'] = s.apply(lambda row: self.ay_avg(row['age'], row['gender'], intrest), axis=1)
      s['hx_avg'] = s.apply(lambda row: (self.hx[row['gender']].ix[row['age']].values[0] +
                      self.hx[row['gender']].ix[row['age'] + 1].values[0]) / 2., axis=1)
      s['alpha1'] = s.apply(lambda row: self.adjust[row['gender']]['partner']['CX1'], axis=1)
      s['factor'] = s.apply(lambda row: self.adjust[row['gender']]['partner']['fnett'] *
                            self.adjust[row['gender']]['partner']['fcorr'] *
                            self.adjust[row['gender']]['partner']['fOTS'], axis=1)
      s['cf'] = s['ay_avg'] * s['hx_avg'] * s['factor']
      s.set_index(['gender', 'age'], inplace=True)
      return s
  \<close>
  The columns are computed one after the other, each row by row.
\<close>

definition create_lookup_table ::
  "settings \<Rightarrow> tables \<Rightarrow> real \<Rightarrow> state \<Rightarrow> (error + lookup_row list) \<times> state" where
  "create_lookup_table env t intrest s =
     (let s0 = s\<lparr>rebuilds := rebuilds s @ [intrest]\<rparr>;
          ages = [LOWAGE env..UPAGE env - 1];
          keys = map (Pair MALE) ages @ map (Pair FEMALE) ages
      in case smap (\<lambda>(g, a). ay_avg env t a g intrest ''partner'') keys s0 of
           (Inl e, s1) \<Rightarrow> (Inl e, s1)
         | (Inr ays, s1) \<Rightarrow>
             (bind (emap (\<lambda>(g, a). hx_avg t g a) keys) (\<lambda>hxs.
              bind (emap (\<lambda>(g, a). adjust_of t g ''partner'') keys) (\<lambda>adjs.
              Inr (map (\<lambda>((g, a), ay, h, adj).
                          \<lparr>row_gender = g, row_age = a, row_ay_avg = ay, row_hx_avg = h,
                           row_alpha1 = CX1 adj,
                           row_factor = fnett adj * fcorr adj * fOTS adj,
                           row_cf = fmul (fmul ay (Some h))
                                      (Some (fnett adj * fcorr adj * fOTS adj))\<rparr>)
                     (zip keys (zip ays (zip hxs adjs)))))),
              s1))"

section \<open>The undefined partner\<close>

text \<open>
  \<^verbatim>\<open>
          try:
              hx_at_pensionage = self.ukv.ix[(sex_insured, pension_age,
                                              kwargs['intrest'])].values[0]
          except:
  \<close>
  The value the \<open>try\<close> block finds, \<open>None\<close> when anything in it raises: \<open>self.ukv\<close> is
  \<open>None\<close>, \<open>kwargs\<close> has no \<open>intrest\<close>, or the table has no such row.
\<close>

definition ukv_lookup :: "tables \<Rightarrow> sex \<Rightarrow> int \<Rightarrow> kwargs \<Rightarrow> real option" where
  "ukv_lookup t sex_insured pension_age kw =
     (case ukv t of
        None \<Rightarrow> None
      | Some tbl \<Rightarrow>
          (case kw_intrest kw of
             None \<Rightarrow> None
           | Some i \<Rightarrow> tbl (sex_insured, pension_age, i)))"

text \<open>
  \<^verbatim>\<open>
      hx_pd = kwargs.get('hx_pd', None)
      # by default, undefined partner pension is assumed to be exchangable
      if (hx_pd is None) or (hx_pd == 'one'):
          hx_at_pensionage = 1
      elif hx_pd == 'ukv':
          try: ...
          except:
              print('Undefined partner cashflows require UKV -- defaults hx_pd = 1')
              hx_at_pensionage = 1
      else:
          hx_at_pensionage = self.hx[sex_insured]['hx'].ix[pension_age]
  \<close>
\<close>

definition default_hx_pd_msg :: string where
  "default_hx_pd_msg = ''Undefined partner cashflows require UKV -- defaults hx_pd = 1''"

definition hx_at_pensionage ::
  "tables \<Rightarrow> sex \<Rightarrow> int \<Rightarrow> kwargs \<Rightarrow> state \<Rightarrow> (error + real) \<times> state" where
  "hx_at_pensionage t sex_insured pension_age kw s =
     (if kw_hx_pd kw = None \<or> kw_hx_pd kw = Some ''one'' then (Inr 1, s)
      else if kw_hx_pd kw = Some ''ukv'' then
        (case ukv_lookup t sex_insured pension_age kw of
           Some v \<Rightarrow> (Inr v, s)
         | None \<Rightarrow>
             (Inr 1, s\<lparr>stdout := stdout s @ [default_hx_pd_msg]\<rparr>))
      else (bind (by_sex (hx t) sex_insured) (\<lambda>m. ix_map m pension_age), s))"

text \<open>
  \<^verbatim>\<open>
      cf_till_pension_age = (lookup.ix[sex_insured].ix[age_insured:pension_age - 1])
      current_age = age_insured  # we need [k]q[current_age]
      cf_till_pension_age['age'] = cf_till_pension_age.index
      nq_current_age = cf_till_pension_age.apply(
          lambda row: self.nqx(current_age + row['alpha1'], sex_insured,
                               row['age'] - current_age + 1), axis=1)
      cf_till_pension_age = cf_till_pension_age['cf'] * nq_current_age
  \<close>
  \<open>lookup.ix[sex]\<close> raises when the table has no row of that sex; the slice by age
  keeps the rows from \<open>age_insured\<close> to \<open>pension_age - 1\<close>, both included.
\<close>

definition cf_till_pension_age ::
  "settings \<Rightarrow> tables \<Rightarrow> lookup_row list \<Rightarrow> int \<Rightarrow> sex \<Rightarrow> int \<Rightarrow> error + series" where
  "cf_till_pension_age env t lookup age_insured sex_insured pension_age =
     (let of_sex = filter (\<lambda>r. row_gender r = sex_insured) lookup in
      if of_sex = [] then Inl KeyError
      else
        (let rows = filter (\<lambda>r. age_insured \<le> row_age r \<and> row_age r \<le> pension_age - 1) of_sex
         in bind (emap (\<lambda>r. nqx env t (age_insured + row_alpha1 r) sex_insured
                                (row_age r - age_insured + 1)) rows) (\<lambda>nq_current_age.
            Inr (map2 (\<lambda>r q. fmul (row_cf r) (Some q)) rows nq_current_age))))"

text \<open>
  \<^verbatim>\<open>
      prob = self.npx(age_insured + lookup['alpha1'].loc[(sex_insured, age_insured)],
                      sex_insured, pension_age - age_insured)
      cf_defined_partner = self.cf_defined_partner(pension_age, sex_insured, pension_age)
      cf_after_pension_age = hx_at_pensionage * prob * cf_defined_partner['payments']
  \<close>
\<close>

definition cf_after_pension_age ::
  "settings \<Rightarrow> tables \<Rightarrow> lookup_row list \<Rightarrow> int \<Rightarrow> sex \<Rightarrow> int \<Rightarrow> real \<Rightarrow> error + series" where
  "cf_after_pension_age env t lookup age_insured sex_insured pension_age hx_at =
     (case find (\<lambda>r. row_gender r = sex_insured \<and> row_age r = age_insured) lookup of
        None \<Rightarrow> Inl KeyError
      | Some r \<Rightarrow>
          bind (npx env t (age_insured + row_alpha1 r) sex_insured
                  (pension_age - age_insured)) (\<lambda>prob.
          bind (cf_defined_partner env t pension_age sex_insured pension_age no_kwargs) (\<lambda>c.
          Inr (series_scale (payments c) (hx_at * prob)))))"

text \<open>
  \<^verbatim>\<open>
      if intrest == self.intrest:
          lookup = self.lookup
      else:
          lookup = self.create_lookup_table(intrest)
          self.lookup = lookup
          self.intrest = intrest
  \<close>
\<close>

definition cached_lookup ::
  "settings \<Rightarrow> tables \<Rightarrow> real \<Rightarrow> state \<Rightarrow> (error + lookup_row list option) \<times> state" where
  "cached_lookup env t intrest s =
     (if Some intrest = self_intrest s then (Inr (self_lookup s), s)
      else
        (case create_lookup_table env t intrest s of
           (Inl e, s1) \<Rightarrow> (Inl e, s1)
         | (Inr lookup, s1) \<Rightarrow>
             (Inr (Some lookup), s1\<lparr>self_lookup := Some lookup, self_intrest := Some intrest\<rparr>)))"

text \<open>
  \<^verbatim>\<open>
  def cf_undefined_partner(self, age_insured, sex_insured, pension_age, **kwargs):
      assert sex_insured in (MALE, FEMALE), "sex insured should be either M of F!"
      intrest = kwargs.get('intrest', None)
      if (intrest is None):
          msg1 = "Undefined partner cashflows require intrest"
          msg2 = "-- defaults intrest = 3pct"
          print("{0} {1}".format(msg1, msg2))
          intrest = 3  # default = 3 pct intrest rate!
      (hx_at_pensionage, as above)
      fnett, fcorr, fOTS = (self.adjust[sex_insured]['partner'][item] for item in [...])
      (lookup, as above)
      (cf_till_pension_age and cf_after_pension_age, as above)
      cf = cf_till_pension_age.append(cf_after_pension_age)
      cf['year'] = range(len(cf))
      cf.set_index('year', inplace=True)
      cf = pd.Series(cf['cf'])
      return {'age': age_insured, 'pension_age': pension_age, 'payments': cf}
  \<close>
  A \<open>lookup\<close> that is \<open>None\<close> (the cached interest is the requested one and no table was
  ever built) has no attribute \<open>ix\<close>.
\<close>

definition default_intrest_msg :: string where
  "default_intrest_msg =
     ''Undefined partner cashflows require intrest -- defaults intrest = 3pct''"

definition cf_undefined_partner ::
  "settings \<Rightarrow> tables \<Rightarrow> int \<Rightarrow> sex \<Rightarrow> int \<Rightarrow> kwargs \<Rightarrow> state \<Rightarrow> (error + cashflow) \<times> state"
  where
  "cf_undefined_partner env t age_insured sex_insured pension_age kw s =
     (if sex_insured \<in> {MALE, FEMALE} then
        (let (intrest, s1) =
               (case kw_intrest kw of
                  None \<Rightarrow> (3, s\<lparr>stdout := stdout s @ [default_intrest_msg]\<rparr>)
                | Some i \<Rightarrow> (i, s))
         in case hx_at_pensionage t sex_insured pension_age kw s1 of
              (Inl e, s2) \<Rightarrow> (Inl e, s2)
            | (Inr hx_at, s2) \<Rightarrow>
                (case adjust_of t sex_insured ''partner'' of
                   Inl e \<Rightarrow> (Inl e, s2)
                 | Inr adj \<Rightarrow>
                     (case cached_lookup env t intrest s2 of
                        (Inl e, s3) \<Rightarrow> (Inl e, s3)
                      | (Inr None, s3) \<Rightarrow> (Inl AttributeError, s3)
                      | (Inr (Some lookup), s3) \<Rightarrow>
                          (bind (cf_till_pension_age env t lookup age_insured sex_insured
                                   pension_age) (\<lambda>till.
                           bind (cf_after_pension_age env t lookup age_insured sex_insured
                                   pension_age hx_at) (\<lambda>after.
                           Inr \<lparr>insurance_id = None, payments = till @ after,
                                cf_age = Some age_insured,
                                cf_pension_age = Some pension_age\<rparr>)),
                           s3))))
      else (Inl InvalidSexError, s))"

text \<open>
  A sequence of calls of \<open>cf_undefined_partner\<close> on one \<open>LifeTable\<close>, each with its
  arguments \<open>(age_insured, sex_insured, pension_age, kwargs)\<close>; it ends at the first
  call that raises.
\<close>

definition undefined_partner_calls ::
  "settings \<Rightarrow> tables \<Rightarrow> (int \<times> sex \<times> int \<times> kwargs) list \<Rightarrow> state
     \<Rightarrow> (error + cashflow list) \<times> state" where
  "undefined_partner_calls env t calls s =
     smap (\<lambda>(age_insured, sex_insured, pension_age, kw).
             cf_undefined_partner env t age_insured sex_insured pension_age kw) calls s"

section \<open>The dispatcher and the factor matrix\<close>

text \<open>
  Modelled from the spec: \<open>merge_two_dicts\<close> of the module \<open>utils\<close>, which is not in the
  source file. The dispatcher "produces a CashFlowRecord tagged with the identifier":
  the record the generator returned, with \<open>insurance_id\<close> added; a generator that sets
  \<open>insurance_id\<close> itself is only ever dispatched under that same identifier.
\<close>

definition merge_two_dicts :: "string \<Rightarrow> cashflow \<Rightarrow> cashflow" where
  "merge_two_dicts iid c =
     (case insurance_id c of None \<Rightarrow> c\<lparr>insurance_id := Some iid\<rparr> | Some i \<Rightarrow> c)"

text \<open>
  \<^verbatim>\<open>
  def cf(self, insurance_id, age_insured, sex_insured, pension_age, **kwargs):
      switcher = {'OPLL': {'call': self.cf_retirement_pension, 'hx_pd': None},
                  'NPLL-B': {'call': self.cf_defined_partner, 'hx_pd': None},
                  'NPLL-O': {'call': self.cf_undefined_partner, 'hx_pd': 'non-exchangable'},
                  'NPLLRS': {'call': self.cf_undefined_partner, 'hx_pd': 'one'},
                  'NPLLRU': {'call': self.cf_undefined_partner, 'hx_pd': 'ukv'},
                  'NPTL-B': {'call': self.cf_defined_one_year_risk, 'hx_pd': None},
                  'NPTL-O': {'call': self.cf_undefined_one_year_risk, 'hx_pd': None},
                  'ay_avg': {'call': self.cf_ay_avg, 'hx_pd': None}}
      out = merge_two_dicts({'insurance_id': insurance_id},
                            switcher[insurance_id]['call'](age_insured, sex_insured, pension_age,
                                hx_pd=switcher[insurance_id]['hx_pd'], **kwargs))
      return out
  \<close>
  An identifier that is no key of \<open>switcher\<close> raises \<open>KeyError\<close>; for one that is, a
  caller's own \<open>hx_pd\<close> makes the call pass \<open>hx_pd\<close> twice, which raises \<open>TypeError\<close>
  before the generator runs.
\<close>

definition cf ::
  "settings \<Rightarrow> tables \<Rightarrow> string \<Rightarrow> int \<Rightarrow> sex \<Rightarrow> int \<Rightarrow> kwargs \<Rightarrow> state
     \<Rightarrow> (error + cashflow) \<times> state" where
  "cf env t iid age_insured sex_insured pension_age kw s =
     (let s0 = s\<lparr>cf_calls := Suc (cf_calls s)\<rparr>;
          out = (\<lambda>r. bind r (\<lambda>c. Inr (merge_two_dicts iid c)));
          undefined_partner = (\<lambda>hx_pd.
            case cf_undefined_partner env t age_insured sex_insured pension_age
                   (kw\<lparr>kw_hx_pd := Some hx_pd\<rparr>) s0 of
              (r, s1) \<Rightarrow> (out r, s1))
      in if iid \<in> {''OPLL'', ''NPLL-B'', ''NPLL-O'', ''NPLLRS'', ''NPLLRU'', ''NPTL-B'',
                   ''NPTL-O'', ''ay_avg''} \<and> kw_hx_pd kw \<noteq> None then
           (Inl TypeError, s0)
         else if iid = ''OPLL'' then
           (out (cf_retirement_pension env t age_insured sex_insured pension_age
                   (kw\<lparr>kw_hx_pd := None\<rparr>)), s0)
         else if iid = ''NPLL-B'' then
           (out (cf_defined_partner env t age_insured sex_insured pension_age
                   (kw\<lparr>kw_hx_pd := None\<rparr>)), s0)
         else if iid = ''NPLL-O'' then undefined_partner ''non-exchangable''
         else if iid = ''NPLLRS'' then undefined_partner ''one''
         else if iid = ''NPLLRU'' then undefined_partner ''ukv''
         else if iid = ''NPTL-B'' then
           (out (cf_defined_one_year_risk env t age_insured sex_insured pension_age
                   (kw\<lparr>kw_hx_pd := None\<rparr>)), s0)
         else if iid = ''NPTL-O'' then
           (out (cf_undefined_one_year_risk env t age_insured sex_insured pension_age
                   (kw\<lparr>kw_hx_pd := None\<rparr>)), s0)
         else if iid = ''ay_avg'' then
           (out (cf_ay_avg env t age_insured sex_insured (PyInt pension_age)
                   (kw\<lparr>kw_hx_pd := None\<rparr>)), s0)
         else (Inl KeyError, s0))"

text \<open>
  Modelled from the spec: \<open>cartesian\<close> of the module \<open>utils\<close>, which is not in the source
  file: "the full cross-product of {all product identifiers} x {both sexes} x
  {supported age range}", one row per combination.
\<close>

definition cartesian :: "string list \<Rightarrow> sex list \<Rightarrow> int list \<Rightarrow> (string \<times> sex \<times> int) list" where
  "cartesian ids sexes ages = List.product ids (List.product sexes ages)"

text \<open>
  \<^verbatim>\<open>
  def calculate_cashflows(self, pension_age, intrest=3):
      df = cartesian(lists=[INSURANCE_IDS, [MALE, FEMALE], range(LOWAGE, UPAGE)],
                     colnames=['insurance_id', 'sex_insured', 'age_insured'])
      def map_to_cf(row):
          return self.cf(insurance_id=row['insurance_id'], age_insured=row['age_insured'],
                         sex_insured=row['sex_insured'], pension_age=pension_age,
                         intrest=intrest)
      df['cf'] = df.apply(map_to_cf, axis=1)
      self.intrest = intrest
      self.pension_age = pension_age
      self.cfs = df
      return df
  \<close>
\<close>

definition calculate_cashflows ::
  "settings \<Rightarrow> tables \<Rightarrow> int \<Rightarrow> real \<Rightarrow> state \<Rightarrow> (error + frame) \<times> state" where
  "calculate_cashflows env t pension_age intrest s =
     (let rows = cartesian (INSURANCE_IDS env) [MALE, FEMALE] [LOWAGE env..UPAGE env - 1] in
      case smap (\<lambda>(iid, sex_insured, age_insured).
                   cf env t iid age_insured sex_insured pension_age
                     (no_kwargs\<lparr>kw_intrest := Some intrest\<rparr>)) rows s of
        (Inl e, s1) \<Rightarrow> (Inl e, s1)
      | (Inr cfl, s1) \<Rightarrow>
          (let df = \<lparr>frame_rows = rows, col_cf = Some cfl, col_tar = None, indexed = False\<rparr>
           in (Inr df, s1\<lparr>self_intrest := Some intrest, self_pension_age := Some pension_age,
                          self_cfs := Some df\<rparr>)))"

text \<open>
  \<^verbatim>\<open>
  def calculate_factors(self, intrest, pension_age=67):
      if (intrest == self.intrest) and (pension_age == self.pension_age):
          factors = self.cfs
      else:
          self.cfs = self.calculate_cashflows(intrest=intrest, pension_age=pension_age)
          factors = self.cfs.copy(deep=True)
      factors['tar'] = factors.apply(lambda row: self.pv(row['cf'], intrest=intrest), axis=1)
      factors.set_index(['insurance_id', 'sex_insured', 'age_insured'], inplace=True)
      factors.drop('cf', inplace=True, axis=1)
      self.factors = factors
      return factors
  \<close>
  In the first branch \<open>factors\<close> is the object \<open>self.cfs\<close> itself, so each of the three
  statements that change \<open>factors\<close> changes \<open>self.cfs\<close>; in the second it is a copy.
  \<open>aliased\<close> says which. A frame without the column \<open>cf\<close> raises \<open>KeyError\<close> at
  \<open>row['cf']\<close>, an indexed frame at \<open>set_index\<close> (its key columns are columns no more).
\<close>

definition write_through :: "bool \<Rightarrow> frame \<Rightarrow> state \<Rightarrow> state" where
  "write_through aliased f s = (if aliased then s\<lparr>self_cfs := Some f\<rparr> else s)"

definition tabulate_factors ::
  "tables \<Rightarrow> real \<Rightarrow> bool \<Rightarrow> frame \<Rightarrow> state \<Rightarrow> (error + frame) \<times> state" where
  "tabulate_factors t intrest aliased factors s =
     (case col_cf factors of
        None \<Rightarrow> (Inl KeyError, s)
      | Some cfl \<Rightarrow>
          (case smap (\<lambda>c. pv t c intrest) cfl s of
             (Inl e, s1) \<Rightarrow> (Inl e, s1)
           | (Inr tar, s1) \<Rightarrow>
               (let f1 = factors\<lparr>col_tar := Some tar\<rparr>;
                    s2 = write_through aliased f1 s1
                in if indexed f1 then (Inl KeyError, s2)
                   else
                     (let f2 = f1\<lparr>indexed := True\<rparr>;
                          f3 = f2\<lparr>col_cf := None\<rparr>;
                          s3 = write_through aliased f3 s2
                      in (Inr f3, s3\<lparr>self_factors := Some f3\<rparr>)))))"

definition calculate_factors ::
  "settings \<Rightarrow> tables \<Rightarrow> real \<Rightarrow> int \<Rightarrow> state \<Rightarrow> (error + frame) \<times> state" where
  "calculate_factors env t intrest pension_age s =
     (if Some intrest = self_intrest s \<and> Some pension_age = self_pension_age s then
        (case self_cfs s of
           None \<Rightarrow> (Inl AttributeError, s)
         | Some factors \<Rightarrow> tabulate_factors t intrest True factors s)
      else
        (case calculate_cashflows env t pension_age intrest s of
           (Inl e, s1) \<Rightarrow> (Inl e, s1)
         | (Inr df, s1) \<Rightarrow> tabulate_factors t intrest False df (s1\<lparr>self_cfs := Some df\<rparr>)))"

section \<open>A small tariff\<close>

text \<open>
  A tariff on which the definitions can be run: one age in the factor tables, life
  tables of three rows, no age offsets and no exchange table.
\<close>

definition demo_settings :: settings where
  "demo_settings =
     \<lparr>LOWAGE = 0, UPAGE = 1, MAXAGE = 2,
      INSURANCE_IDS = [''OPLL'', ''NPLL-B'', ''NPLL-O'', ''NPLLRS'', ''NPLLRU'', ''NPTL-B'',
                       ''NPTL-O''],
      prae_to_continuous = (\<lambda>p. p)\<rparr>"

definition demo_adjustment :: adjustment where
  "demo_adjustment = \<lparr>CX1 = 0, CX2 = 0, CX3 = 0, fnett = 1, fcorr = 1, fOTS = 1\<rparr>"

definition demo_tables :: tables where
  "demo_tables =
     \<lparr>params_delta = 0, params_round = 2,
      lx = (\<lambda>s. [4, 2, 1]),
      hx = (\<lambda>s. [0 \<mapsto> 1 / 2, 1 \<mapsto> 1 / 2]),
      adjust = (\<lambda>(s, ty). if s \<in> {MALE, FEMALE} \<and> ty \<in> {''partner'', ''retire''}
                           then Some demo_adjustment else None),
      ukv = None\<rparr>"

section \<open>Notions the statements use\<close>

text \<open>
  The interest a call of \<open>cf_undefined_partner\<close> works with: the keyword \<open>intrest\<close>, or 3
  when the keyword is absent.
\<close>

definition requested_intrest :: "kwargs \<Rightarrow> real" where
  "requested_intrest kw = (case kw_intrest kw of None \<Rightarrow> 3 | Some i \<Rightarrow> i)"

text \<open>The first \<open>n\<close> elements of the sequence \<open>a, b, a, b, \<dots>\<close>.\<close>

fun alternating :: "'a \<Rightarrow> 'a \<Rightarrow> nat \<Rightarrow> 'a list" where
  "alternating a b 0 = []"
| "alternating a b (Suc n) = a # alternating b a n"

text \<open>
  What \<open>pv\<close> does to the state: it assigns \<open>self.yield_curve\<close> (or does not reach that
  line) and prints some lines (or none).
\<close>

definition pv_effect :: "real list option option \<Rightarrow> string list \<Rightarrow> state \<Rightarrow> state" where
  "pv_effect u out s =
     (case u of None \<Rightarrow> s | Some v \<Rightarrow> s\<lparr>self_yield_curve := v\<rparr>)\<lparr>stdout := stdout s @ out\<rparr>"

section \<open>Properties\<close>

subsection \<open>Raising and sequencing\<close>

lemma bind_Inr [simp]: "bind (Inr x) f = f x"
  by (simp add: bind_def)

lemma bind_Inl [simp]: "bind (Inl e) f = Inl e"
  by (simp add: bind_def)

lemma by_sex_valid: "s \<in> {MALE, FEMALE} \<Longrightarrow> by_sex d s = Inr (d s)"
  by auto

lemma by_sex_other [simp]: "s \<notin> {MALE, FEMALE} \<Longrightarrow> by_sex d s = Inl KeyError"
  by (cases s) auto

subsection \<open>Survival probability\<close>

text \<open>
  C1. For a sex in \<open>{MALE, FEMALE}\<close>, an age and a number of years that are not negative,
  and a life table that has a row for every age up to \<open>MAXAGE\<close> and is not 0 at
  \<open>min(age, MAXAGE)\<close>, \<open>npx\<close> returns \<open>lx[min(age + n, MAXAGE)] / lx[min(age, MAXAGE)]\<close>
  of that sex's table: an age above \<open>MAXAGE\<close> is read at \<open>MAXAGE\<close>, in the numerator and in
  the denominator.
\<close>

theorem npx_clamped_quotient:
  assumes "s \<in> {MALE, FEMALE}" and "0 \<le> age" and "0 \<le> n"
    and "0 \<le> MAXAGE env" and "MAXAGE env < int (length (lx t s))"
    and "lx t s ! nat (min age (MAXAGE env)) \<noteq> 0"
  shows "npx env t age s n =
           Inr (lx t s ! nat (min (age + n) (MAXAGE env)) / lx t s ! nat (min age (MAXAGE env)))"
  using assms by (auto simp: npx_def Let_def ix_def)

text \<open>
  On the small tariff (\<open>MAXAGE = 2\<close>, \<open>lx = [4, 2, 1]\<close>): from age 0 over one year nothing
  is clamped, from age 1 over five years the numerator is read at age 2, and from age 5
  over three years both are.
\<close>

theorem npx_clamped_quotient_witness:
  "npx demo_settings demo_tables 0 MALE 1 = Inr (2 / 4) \<and>
   npx demo_settings demo_tables 1 FEMALE 5 = Inr (1 / 2) \<and>
   npx demo_settings demo_tables 5 MALE 3 = Inr (1 / 1)"
  using npx_clamped_quotient [of MALE 0 1 demo_settings demo_tables]
    npx_clamped_quotient [of FEMALE 1 5 demo_settings demo_tables]
    npx_clamped_quotient [of MALE 5 3 demo_settings demo_tables]
  by (simp add: demo_settings_def demo_tables_def)

subsection \<open>A sex that is neither \<open>MALE\<close> nor \<open>FEMALE\<close>\<close>

text \<open>
  Three generators begin with the \<open>assert\<close> on the sex, and raise its
  \<open>AssertionError\<close>. \<open>cf_defined_one_year_risk\<close> has the same \<open>assert\<close>, but after two
  lookups in \<open>self.adjust\<close> by the sex.
\<close>

lemma cf_ay_avg_invalid_sex:
  "s \<notin> {MALE, FEMALE} \<Longrightarrow> cf_ay_avg env t age s pa kw = Inl InvalidSexError"
  by (simp add: cf_ay_avg_def)

lemma cf_defined_partner_invalid_sex:
  "s \<notin> {MALE, FEMALE} \<Longrightarrow> cf_defined_partner env t age s pa kw = Inl InvalidSexError"
  by (simp add: cf_defined_partner_def)

lemma cf_undefined_partner_invalid_sex:
  "s \<notin> {MALE, FEMALE} \<Longrightarrow> cf_undefined_partner env t age s pa kw st = (Inl InvalidSexError, st)"
  by (simp add: cf_undefined_partner_def)

lemma cf_defined_one_year_risk_invalid_sex:
  "s \<notin> {MALE, FEMALE} \<Longrightarrow>
   cf_defined_one_year_risk env t age s pa kw =
     (if adjust t (s, ''partner'') = None then Inl KeyError else Inl InvalidSexError)"
  by (simp add: cf_defined_one_year_risk_def adjust_of_def split: option.splits)

text \<open>
  C2. The claim is that every operation with a sex argument raises \<open>InvalidSexError\<close> for
  a sex that is not \<open>MALE\<close> or \<open>FEMALE\<close>. \<open>npx\<close>, \<open>cf_retirement_pension\<close> and
  \<open>cf_undefined_one_year_risk\<close> have no \<open>assert\<close>: for the sex \<open>'X'\<close> they raise the
  \<open>KeyError\<close> of the dictionary \<open>self.lx\<close> or \<open>self.hx\<close>, whatever the other arguments.
\<close>

theorem invalid_sex_KeyError:
  "npx env t age (OtherSex ''X'') n = Inl KeyError \<and>
   cf_retirement_pension env t age (OtherSex ''X'') pa kw = Inl KeyError \<and>
   cf_undefined_one_year_risk env t age (OtherSex ''X'') pa kw = Inl KeyError \<and>
   KeyError \<noteq> InvalidSexError"
  by (simp add: npx_def cf_retirement_pension_def cf_undefined_one_year_risk_def hx_avg_def
      InvalidSexError_def)

subsection \<open>The averaged partner annuity\<close>

text \<open>
  C10. \<open>ay_avg\<close> returns the same for every \<open>insurance_type\<close>: the argument arrives in
  the parameter \<open>pension_age\<close> of \<open>cf_ay_avg\<close>, which reads \<open>insurance_type\<close> from its
  keywords, finds none and takes \<open>'partner'\<close>. So \<open>ay_avg\<close> is the present value of
  \<open>cf_ay_avg\<close> called with \<open>insurance_type='partner'\<close>.
\<close>

theorem ay_avg_ignores_insurance_type:
  "ay_avg env t age sex_insured intrest ty s = ay_avg env t age sex_insured intrest ty' s \<and>
   ay_avg env t age sex_insured intrest ty s =
     (case cf_ay_avg env t age sex_insured PyNone
             (no_kwargs\<lparr>kw_insurance_type := Some ''partner''\<rparr>) of
        Inl e \<Rightarrow> (Inl e, s)
      | Inr c \<Rightarrow> pv t ((only_payments (payments c))\<lparr>insurance_id := Some ''OPLL''\<rparr>) intrest s)"
  by (simp add: ay_avg_def cf_ay_avg_def no_kwargs_def)

subsection \<open>What the stateful methods do to the state\<close>

text \<open>
  \<open>pv\<close> returns a value that does not depend on the state and changes the state by a
  \<open>pv_effect\<close>; so does every sequence of calls of \<open>pv\<close>. \<open>ay_avg\<close> and
  \<open>create_lookup_table\<close> print nothing.
\<close>

lemma pv_effect_nil [simp]: "pv_effect None [] s = s"
  by (simp add: pv_effect_def)

lemma pv_effect_compose:
  "pv_effect u2 o2 (pv_effect u1 o1 s) =
     pv_effect (case u2 of None \<Rightarrow> u1 | Some v \<Rightarrow> Some v) (o1 @ o2) s"
  by (cases u1; cases u2; simp add: pv_effect_def)

lemma pv_at_any_state:
  "pv t c i s =
     (fst (pv t c i init_state),
      pv_effect (map_option Some (self_yield_curve (snd (pv t c i init_state))))
        (stdout (snd (pv t c i init_state))) s)"
  by (simp add: pv_def pv_effect_def init_state_def Let_def split: option.splits)

lemma pv_effect_ex: "\<exists>r u out. \<forall>s. pv t c i s = (r, pv_effect u out s)"
  using pv_at_any_state by blast

lemma pv_OPLL:
  "insurance_id c = Some ''OPLL'' \<Longrightarrow>
   \<exists>r. \<forall>s. pv t c i s = (r, pv_effect (Some (Some (x_to_series i (length (payments c))))) [] s)"
  by (simp add: pv_def pv_effect_def Let_def)

lemma ay_avg_effect: "\<exists>r u. \<forall>s. ay_avg env t a g i ty s = (r, pv_effect u [] s)"
proof (cases "cf_ay_avg env t a g (PyStr ty) no_kwargs")
  case (Inl e)
  then have "\<forall>s. ay_avg env t a g i ty s = (Inl e, pv_effect None [] s)"
    by (simp add: ay_avg_def)
  then show ?thesis by blast
next
  case (Inr c)
  obtain r where "\<forall>s. pv t ((only_payments (payments c))\<lparr>insurance_id := Some ''OPLL''\<rparr>) i s =
      (r, pv_effect (Some (Some (x_to_series i
            (length (payments ((only_payments (payments c))\<lparr>insurance_id := Some ''OPLL''\<rparr>)))))) [] s)"
    using pv_OPLL [of "(only_payments (payments c))\<lparr>insurance_id := Some ''OPLL''\<rparr>" t i] by auto
  with Inr show ?thesis by (auto simp: ay_avg_def)
qed

lemma smap_effect:
  assumes "P []" and "\<And>a b. P a \<Longrightarrow> P b \<Longrightarrow> P (a @ b)"
    and "\<And>x. x \<in> set xs \<Longrightarrow> \<exists>r u out. P out \<and> (\<forall>s. f x s = (r, pv_effect u out s))"
  shows "\<exists>r u out. P out \<and> (\<forall>s. smap f xs s = (r, pv_effect u out s))"
  using assms(3)
proof (induction xs)
  case Nil
  have "\<forall>s. smap f [] s = (Inr [], pv_effect None [] s)" by simp
  with assms(1) show ?case by blast
next
  case (Cons x xs)
  obtain r1 u1 o1 where 1: "P o1" "\<forall>s. f x s = (r1, pv_effect u1 o1 s)"
    using Cons.prems [of x] by auto
  obtain r2 u2 o2 where 2: "P o2" "\<forall>s. smap f xs s = (r2, pv_effect u2 o2 s)"
    using Cons.IH Cons.prems by auto
  show ?case
  proof (cases r1)
    case (Inl e)
    with 1 have "\<forall>s. smap f (x # xs) s = (Inl e, pv_effect u1 o1 s)" by simp
    with 1 show ?thesis by blast
  next
    case (Inr y)
    let ?u = "case u2 of None \<Rightarrow> u1 | Some v \<Rightarrow> Some v"
    have "\<forall>s. smap f (x # xs) s =
            ((case r2 of Inl e \<Rightarrow> Inl e | Inr ys \<Rightarrow> Inr (y # ys)), pv_effect ?u (o1 @ o2) s)"
      using 1 2 Inr by (simp add: pv_effect_compose split: sum.splits)
    moreover have "P (o1 @ o2)" using 1 2 assms(2) by blast
    ultimately show ?thesis by blast
  qed
qed

lemma smap_quiet:
  assumes "\<And>x. x \<in> set xs \<Longrightarrow> \<exists>r u. \<forall>s. f x s = (r, pv_effect u [] s)"
  shows "\<exists>r u. \<forall>s. smap f xs s = (r, pv_effect u [] s)"
proof -
  have "\<exists>r u out. out = [] \<and> (\<forall>s. smap f xs s = (r, pv_effect u out s))"
    by (rule smap_effect [where P = "\<lambda>out. out = []"]) (use assms in auto)
  then show ?thesis by auto
qed

lemma smap_pv_effect: "\<exists>r u out. \<forall>s. smap (\<lambda>c. pv t c i) cfl s = (r, pv_effect u out s)"
proof -
  have "\<exists>r u out. True \<and> (\<forall>s. smap (\<lambda>c. pv t c i) cfl s = (r, pv_effect u out s))"
    by (rule smap_effect [where P = "\<lambda>out. True"]) (use pv_effect_ex in auto)
  then show ?thesis by auto
qed

lemma create_lookup_table_effect:
  "\<exists>r u. \<forall>s. create_lookup_table env t i s =
             (r, pv_effect u [] (s\<lparr>rebuilds := rebuilds s @ [i]\<rparr>))"
proof -
  let ?ages = "[LOWAGE env..UPAGE env - 1]"
  let ?keys = "map (Pair MALE) ?ages @ map (Pair FEMALE) ?ages"
  obtain r u where ru:
    "\<forall>s. smap (\<lambda>(g, a). ay_avg env t a g i ''partner'') ?keys s = (r, pv_effect u [] s)"
    using smap_quiet [of ?keys "\<lambda>(g, a). ay_avg env t a g i ''partner''"] ay_avg_effect
    by (auto simp: split_def)
  show ?thesis
  proof (cases r)
    case (Inl e)
    with ru have "\<forall>s. create_lookup_table env t i s =
        (Inl e, pv_effect u [] (s\<lparr>rebuilds := rebuilds s @ [i]\<rparr>))"
      by (simp add: create_lookup_table_def Let_def)
    then show ?thesis by blast
  next
    case (Inr ays)
    let ?r = "bind (emap (\<lambda>(g, a). hx_avg t g a) ?keys) (\<lambda>hxs.
              bind (emap (\<lambda>(g, a). adjust_of t g ''partner'') ?keys) (\<lambda>adjs.
              Inr (map (\<lambda>((g, a), ay, h, adj).
                          \<lparr>row_gender = g, row_age = a, row_ay_avg = ay, row_hx_avg = h,
                           row_alpha1 = CX1 adj,
                           row_factor = fnett adj * fcorr adj * fOTS adj,
                           row_cf = fmul (fmul ay (Some h))
                                      (Some (fnett adj * fcorr adj * fOTS adj))\<rparr>)
                     (zip ?keys (zip ays (zip hxs adjs))))))"
    from Inr ru have "\<forall>s. create_lookup_table env t i s =
        (?r, pv_effect u [] (s\<lparr>rebuilds := rebuilds s @ [i]\<rparr>))"
      by (simp add: create_lookup_table_def Let_def)
    then show ?thesis by blast
  qed
qed

lemma cached_lookup_hit:
  "self_intrest s = Some i \<Longrightarrow> cached_lookup env t i s = (Inr (self_lookup s), s)"
  by (simp add: cached_lookup_def)

lemma cached_lookup_miss:
  assumes "self_intrest s \<noteq> Some i" and "cached_lookup env t i s = (Inr r, s')"
  shows "\<exists>u l. r = Some l \<and> fst (create_lookup_table env t i init_state) = Inr l \<and>
           s' = (pv_effect u [] (s\<lparr>rebuilds := rebuilds s @ [i]\<rparr>))
                  \<lparr>self_lookup := Some l, self_intrest := Some i\<rparr>"
proof -
  obtain rc u where ru: "\<forall>s. create_lookup_table env t i s =
             (rc, pv_effect u [] (s\<lparr>rebuilds := rebuilds s @ [i]\<rparr>))"
    using create_lookup_table_effect by blast
  then have "fst (create_lookup_table env t i init_state) = rc" by simp
  with ru assms show ?thesis
    by (cases rc) (auto simp: cached_lookup_def)
qed

lemma create_lookup_table_result:
  "fst (create_lookup_table env t i s) = fst (create_lookup_table env t i init_state)"
  using create_lookup_table_effect [of env t i] by (metis fst_conv)

subsection \<open>The cache of the lookup table\<close>

lemma hx_at_pensionage_state:
  "\<exists>out. snd (hx_at_pensionage t sex_insured pa kw s) = s\<lparr>stdout := stdout s @ out\<rparr>"
proof (cases "kw_hx_pd kw = Some ''ukv'' \<and> ukv_lookup t sex_insured pa kw = None")
  case True
  then have "snd (hx_at_pensionage t sex_insured pa kw s) = s\<lparr>stdout := stdout s @ [default_hx_pd_msg]\<rparr>"
    by (simp add: hx_at_pensionage_def)
  then show ?thesis by blast
next
  case False
  then have "snd (hx_at_pensionage t sex_insured pa kw s) = s\<lparr>stdout := stdout s @ []\<rparr>"
    by (auto simp: hx_at_pensionage_def split: option.splits)
  then show ?thesis by blast
qed

lemma cf_undefined_partner_reaches_cache:
  assumes "cf_undefined_partner env t age sex_insured pa kw s = (r, s')" and "\<not> isl r"
  shows "\<exists>out lookup. cached_lookup env t (requested_intrest kw) (s\<lparr>stdout := stdout s @ out\<rparr>)
                         = (Inr (Some lookup), s')"
proof -
  have valid: "sex_insured \<in> {MALE, FEMALE}"
    using assms by (auto simp: cf_undefined_partner_def split: if_splits)
  define s1 where "s1 = (case kw_intrest kw of None \<Rightarrow> s\<lparr>stdout := stdout s @ [default_intrest_msg]\<rparr> | Some i \<Rightarrow> s)"
  obtain o1 where o1: "s1 = s\<lparr>stdout := stdout s @ o1\<rparr>"
  proof (cases "kw_intrest kw")
    case None
    then have "s1 = s\<lparr>stdout := stdout s @ [default_intrest_msg]\<rparr>" by (simp add: s1_def)
    then show ?thesis using that by blast
  next
    case (Some i)
    then have "s1 = s\<lparr>stdout := stdout s @ []\<rparr>" by (simp add: s1_def)
    then show ?thesis using that by blast
  qed
  obtain hr s2 where h: "hx_at_pensionage t sex_insured pa kw s1 = (hr, s2)"
    by (cases "hx_at_pensionage t sex_insured pa kw s1") auto
  obtain o2 where o2: "s2 = s1\<lparr>stdout := stdout s1 @ o2\<rparr>"
    using hx_at_pensionage_state [of t sex_insured pa kw s1] h by auto
  have s2: "s2 = s\<lparr>stdout := stdout s @ (o1 @ o2)\<rparr>"
    using o1 o2 by simp
  have unfold: "cf_undefined_partner env t age sex_insured pa kw s =
      (case hr of Inl e \<Rightarrow> (Inl e, s2)
       | Inr hx_at \<Rightarrow>
          (case adjust_of t sex_insured ''partner'' of
                   Inl e \<Rightarrow> (Inl e, s2)
                 | Inr adj \<Rightarrow>
                     (case cached_lookup env t (requested_intrest kw) s2 of
                        (Inl e, s3) \<Rightarrow> (Inl e, s3)
                      | (Inr None, s3) \<Rightarrow> (Inl AttributeError, s3)
                      | (Inr (Some lookup), s3) \<Rightarrow>
                          (bind (cf_till_pension_age env t lookup age sex_insured pa) (\<lambda>till.
                           bind (cf_after_pension_age env t lookup age sex_insured pa hx_at) (\<lambda>after.
                           Inr \<lparr>insurance_id = None, payments = till @ after,
                                cf_age = Some age,
                                cf_pension_age = Some pa\<rparr>)),
                           s3))))"
    using valid h
    by (cases "kw_intrest kw")
      (simp_all add: cf_undefined_partner_def s1_def requested_intrest_def
         cong: sum.case_cong prod.case_cong)
  from assms unfold have "\<exists>lookup. cached_lookup env t (requested_intrest kw) s2 = (Inr (Some lookup), s')"
    by (auto split: sum.splits option.splits prod.splits)
  with s2 show ?thesis by blast
qed

lemma cf_undefined_partner_cache:
  assumes "cf_undefined_partner env t age sex_insured pa kw s = (r, s')" and "\<not> isl r"
  shows "self_intrest s' = Some (requested_intrest kw)"
    and "rebuilds s' =
           rebuilds s @ (if self_intrest s = Some (requested_intrest kw) then []
                         else [requested_intrest kw])"
    and "self_intrest s = Some (requested_intrest kw) \<Longrightarrow> self_lookup s' = self_lookup s"
    and "self_intrest s \<noteq> Some (requested_intrest kw) \<Longrightarrow>
           \<exists>tbl. fst (create_lookup_table env t (requested_intrest kw) init_state) = Inr tbl \<and>
                 self_lookup s' = Some tbl"
proof -
  let ?i = "requested_intrest kw"
  obtain out lookup where c:
    "cached_lookup env t ?i (s\<lparr>stdout := stdout s @ out\<rparr>) = (Inr (Some lookup), s')"
    using cf_undefined_partner_reaches_cache [OF assms] by blast
  let ?s = "s\<lparr>stdout := stdout s @ out\<rparr>"
  have all: "self_intrest s' = Some ?i \<and>
      rebuilds s' = rebuilds s @ (if self_intrest s = Some ?i then [] else [?i]) \<and>
      (self_intrest s = Some ?i \<longrightarrow> self_lookup s' = self_lookup s) \<and>
      (self_intrest s \<noteq> Some ?i \<longrightarrow>
         (\<exists>tbl. fst (create_lookup_table env t ?i init_state) = Inr tbl \<and> self_lookup s' = Some tbl))"
  proof (cases "self_intrest s = Some ?i")
    case True
    then have "cached_lookup env t ?i ?s = (Inr (self_lookup ?s), ?s)"
      by (simp add: cached_lookup_hit)
    with c have "s' = ?s" by simp
    with True show ?thesis by simp
  next
    case False
    then have "self_intrest ?s \<noteq> Some ?i" by simp
    from cached_lookup_miss [OF this c]
    obtain u l where "fst (create_lookup_table env t ?i init_state) = Inr l"
      and "s' = (pv_effect u [] (?s\<lparr>rebuilds := rebuilds ?s @ [?i]\<rparr>))
                  \<lparr>self_lookup := Some l, self_intrest := Some ?i\<rparr>"
      by blast
    with False show ?thesis by (cases u) (simp_all add: pv_effect_def)
  qed
  from all show "self_intrest s' = Some ?i" by blast
  from all show "rebuilds s' = rebuilds s @ (if self_intrest s = Some ?i then [] else [?i])" by blast
  from all show "self_intrest s = Some ?i \<Longrightarrow> self_lookup s' = self_lookup s" by blast
  from all show "self_intrest s \<noteq> Some ?i \<Longrightarrow>
           \<exists>tbl. fst (create_lookup_table env t ?i init_state) = Inr tbl \<and>
                 self_lookup s' = Some tbl" by blast
qed

text \<open>
  C3. Let a call of \<open>cf_undefined_partner\<close> return a record, and let \<open>i\<close> be the interest
  it works with. Afterwards \<open>self.intrest\<close> is \<open>i\<close>. If \<open>self.intrest\<close> was \<open>i\<close> before
  the call, \<open>create_lookup_table\<close> was not called and \<open>self.lookup\<close> is unchanged;
  otherwise \<open>create_lookup_table\<close> was called once, with \<open>i\<close>, and \<open>self.lookup\<close> is the
  table it returned.
\<close>

theorem lookup_cache_policy:
  assumes "cf_undefined_partner env t age sex_insured pa kw s = (r, s')" and "\<not> isl r"
    and "i = requested_intrest kw"
  shows "self_intrest s' = Some i \<and>
         (if self_intrest s = Some i
          then rebuilds s' = rebuilds s \<and> self_lookup s' = self_lookup s
          else rebuilds s' = rebuilds s @ [i] \<and>
               (\<exists>tbl. fst (create_lookup_table env t i s) = Inr tbl \<and> self_lookup s' = Some tbl))"
  using cf_undefined_partner_cache [OF assms(1,2)] assms(3)
    create_lookup_table_result [of env t i s]
  by auto

text \<open>
  On the small tariff: a first call with the interest 3 on a fresh object builds the
  table; a second call with the same interest returns too, builds nothing and leaves
  the table, which is one, where it is.
\<close>

lemma demo_first_undefined_partner_call:
  "\<not> isl (fst (cf_undefined_partner demo_settings demo_tables 0 MALE 1
                 (no_kwargs\<lparr>kw_intrest := Some 3\<rparr>) init_state))"
  by code_simp

lemma demo_second_undefined_partner_call:
  "\<not> isl (fst (cf_undefined_partner demo_settings demo_tables 0 MALE 1
                 (no_kwargs\<lparr>kw_intrest := Some 3\<rparr>)
                 (snd (cf_undefined_partner demo_settings demo_tables 0 MALE 1
                         (no_kwargs\<lparr>kw_intrest := Some 3\<rparr>) init_state))))"
  by code_simp

theorem lookup_cache_policy_witness:
  "self_intrest (snd (cf_undefined_partner demo_settings demo_tables 0 MALE 1
                        (no_kwargs\<lparr>kw_intrest := Some 3\<rparr>) init_state)) = Some 3 \<and>
   rebuilds (snd (cf_undefined_partner demo_settings demo_tables 0 MALE 1
                    (no_kwargs\<lparr>kw_intrest := Some 3\<rparr>) init_state)) = [3] \<and>
   self_lookup (snd (cf_undefined_partner demo_settings demo_tables 0 MALE 1
                       (no_kwargs\<lparr>kw_intrest := Some 3\<rparr>) init_state)) \<noteq> None \<and>
   \<not> isl (fst (cf_undefined_partner demo_settings demo_tables 0 MALE 1
                 (no_kwargs\<lparr>kw_intrest := Some 3\<rparr>)
                 (snd (cf_undefined_partner demo_settings demo_tables 0 MALE 1
                         (no_kwargs\<lparr>kw_intrest := Some 3\<rparr>) init_state)))) \<and>
   self_intrest (snd (cf_undefined_partner demo_settings demo_tables 0 MALE 1
                 (no_kwargs\<lparr>kw_intrest := Some 3\<rparr>)
                 (snd (cf_undefined_partner demo_settings demo_tables 0 MALE 1
                         (no_kwargs\<lparr>kw_intrest := Some 3\<rparr>) init_state)))) = Some 3 \<and>
   rebuilds (snd (cf_undefined_partner demo_settings demo_tables 0 MALE 1
                 (no_kwargs\<lparr>kw_intrest := Some 3\<rparr>)
                 (snd (cf_undefined_partner demo_settings demo_tables 0 MALE 1
                         (no_kwargs\<lparr>kw_intrest := Some 3\<rparr>) init_state)))) = [3] \<and>
   self_lookup (snd (cf_undefined_partner demo_settings demo_tables 0 MALE 1
                 (no_kwargs\<lparr>kw_intrest := Some 3\<rparr>)
                 (snd (cf_undefined_partner demo_settings demo_tables 0 MALE 1
                         (no_kwargs\<lparr>kw_intrest := Some 3\<rparr>) init_state)))) =
     self_lookup (snd (cf_undefined_partner demo_settings demo_tables 0 MALE 1
                         (no_kwargs\<lparr>kw_intrest := Some 3\<rparr>) init_state))"
proof -
  let ?kw = "no_kwargs\<lparr>kw_intrest := Some 3\<rparr>"
  let ?c1 = "cf_undefined_partner demo_settings demo_tables 0 MALE 1 ?kw init_state"
  let ?c2 = "cf_undefined_partner demo_settings demo_tables 0 MALE 1 ?kw (snd ?c1)"
  have i: "(3::real) = requested_intrest ?kw"
    by (simp add: requested_intrest_def no_kwargs_def)
  have c1: "?c1 = (fst ?c1, snd ?c1)" and c2: "?c2 = (fst ?c2, snd ?c2)" by simp_all
  have miss: "self_intrest (snd ?c1) = Some 3 \<and> rebuilds (snd ?c1) = [3] \<and>
              self_lookup (snd ?c1) \<noteq> None"
    using lookup_cache_policy [OF c1 demo_first_undefined_partner_call i]
    by (auto simp: init_state_def)
  then have hit: "self_intrest (snd ?c2) = Some 3 \<and> rebuilds (snd ?c2) = [3] \<and>
              self_lookup (snd ?c2) = self_lookup (snd ?c1)"
    using lookup_cache_policy [OF c2 demo_second_undefined_partner_call i] by simp
  from miss hit demo_second_undefined_partner_call show ?thesis by blast
qed

subsection \<open>Rebuilds over a sequence of calls\<close>

lemma undefined_partner_calls_Cons:
  assumes "\<not> isl (fst (undefined_partner_calls env t ((age, sx, pa, kw) # calls) s))"
  shows "\<not> isl (fst (cf_undefined_partner env t age sx pa kw s))"
    and "\<not> isl (fst (undefined_partner_calls env t calls
                       (snd (cf_undefined_partner env t age sx pa kw s))))"
    and "snd (undefined_partner_calls env t ((age, sx, pa, kw) # calls) s) =
           snd (undefined_partner_calls env t calls
                  (snd (cf_undefined_partner env t age sx pa kw s)))"
  using assms
  by (auto simp: undefined_partner_calls_def split: prod.splits sum.splits)

text \<open>
  C4, as the code has it. The cache holds one table. In a sequence of calls that all
  return, whose interest alternates between two distinct rates \<open>a\<close> and \<open>b\<close>, and that
  starts with a cache that does not hold the table of \<open>a\<close>, every call finds the table
  of the other rate and calls \<open>create_lookup_table\<close>: \<open>n\<close> calls make \<open>n\<close> rebuilds, for
  the rates \<open>a, b, a, b, \<dots>\<close> in this order.
\<close>

theorem rebuild_on_every_alternation:
  assumes "a \<noteq> b" and "self_intrest s \<noteq> Some a"
    and "map (\<lambda>(age, sx, pa, kw). requested_intrest kw) calls = alternating a b n"
    and "\<not> isl (fst (undefined_partner_calls env t calls s))"
  shows "rebuilds (snd (undefined_partner_calls env t calls s)) = rebuilds s @ alternating a b n"
  using assms
proof (induction n arbitrary: a b calls s)
  case 0
  then show ?case by (simp add: undefined_partner_calls_def)
next
  case (Suc n)
  from Suc.prems(3) obtain age sx pa kw rest where calls: "calls = (age, sx, pa, kw) # rest"
    and a: "requested_intrest kw = a"
    and rest: "map (\<lambda>(age, sx, pa, kw). requested_intrest kw) rest = alternating b a n"
    by (cases calls) auto
  let ?c = "cf_undefined_partner env t age sx pa kw s"
  let ?s1 = "snd ?c"
  have ok1: "\<not> isl (fst ?c)"
    and ok_rest: "\<not> isl (fst (undefined_partner_calls env t rest ?s1))"
    and final: "snd (undefined_partner_calls env t calls s) =
                  snd (undefined_partner_calls env t rest ?s1)"
    using undefined_partner_calls_Cons [of env t age sx pa kw rest s] Suc.prems(4) calls
    by simp_all
  have c: "?c = (fst ?c, ?s1)" by simp
  have key: "self_intrest ?s1 = Some a"
    using cf_undefined_partner_cache(1) [OF c ok1] a by simp
  have log: "rebuilds ?s1 = rebuilds s @ [a]"
    using cf_undefined_partner_cache(2) [OF c ok1] a Suc.prems(2) by simp
  have "self_intrest ?s1 \<noteq> Some b" using key Suc.prems(1) by simp
  with Suc.IH [of b a ?s1 rest] Suc.prems(1) rest ok_rest
  have "rebuilds (snd (undefined_partner_calls env t rest ?s1)) = rebuilds ?s1 @ alternating b a n"
    by auto
  with final log show ?case by simp
qed

lemma demo_alternating_calls:
  "\<not> isl (fst (undefined_partner_calls demo_settings demo_tables
        [(0, MALE, 1, no_kwargs\<lparr>kw_intrest := Some 3\<rparr>),
         (0, MALE, 1, no_kwargs\<lparr>kw_intrest := Some 4\<rparr>),
         (0, MALE, 1, no_kwargs\<lparr>kw_intrest := Some 3\<rparr>),
         (0, MALE, 1, no_kwargs\<lparr>kw_intrest := Some 4\<rparr>)] init_state))"
  by code_simp

theorem rebuild_on_every_alternation_witness:
  "rebuilds (snd (undefined_partner_calls demo_settings demo_tables
        [(0, MALE, 1, no_kwargs\<lparr>kw_intrest := Some 3\<rparr>),
         (0, MALE, 1, no_kwargs\<lparr>kw_intrest := Some 4\<rparr>),
         (0, MALE, 1, no_kwargs\<lparr>kw_intrest := Some 3\<rparr>),
         (0, MALE, 1, no_kwargs\<lparr>kw_intrest := Some 4\<rparr>)] init_state)) = [3, 4, 3, 4]"
proof -
  have 1: "(3::real) \<noteq> 4" by simp
  have 2: "self_intrest init_state \<noteq> Some 3" by (simp add: init_state_def)
  have 3: "map (\<lambda>(age, sx, pa, kw). requested_intrest kw)
        [(0::int, MALE, 1::int, no_kwargs\<lparr>kw_intrest := Some 3\<rparr>),
         (0, MALE, 1, no_kwargs\<lparr>kw_intrest := Some 4\<rparr>),
         (0, MALE, 1, no_kwargs\<lparr>kw_intrest := Some 3\<rparr>),
         (0, MALE, 1, no_kwargs\<lparr>kw_intrest := Some 4\<rparr>)] = alternating 3 4 4"
    by (simp add: requested_intrest_def numeral_eq_Suc)
  from rebuild_on_every_alternation [OF 1 2 3 demo_alternating_calls]
  show ?thesis by (simp add: init_state_def numeral_eq_Suc)
qed

text \<open>
  C4, as the claim has it (two rebuilds in all, one per distinct rate), fails: four calls
  with the rates 3, 4, 3, 4 on the small tariff all return, and rebuild four times.
\<close>

theorem one_rebuild_per_rate_counterexample:
  "\<not> isl (fst (undefined_partner_calls demo_settings demo_tables
        [(0, MALE, 1, no_kwargs\<lparr>kw_intrest := Some 3\<rparr>),
         (0, MALE, 1, no_kwargs\<lparr>kw_intrest := Some 4\<rparr>),
         (0, MALE, 1, no_kwargs\<lparr>kw_intrest := Some 3\<rparr>),
         (0, MALE, 1, no_kwargs\<lparr>kw_intrest := Some 4\<rparr>)] init_state)) \<and>
   length (rebuilds (snd (undefined_partner_calls demo_settings demo_tables
        [(0, MALE, 1, no_kwargs\<lparr>kw_intrest := Some 3\<rparr>),
         (0, MALE, 1, no_kwargs\<lparr>kw_intrest := Some 4\<rparr>),
         (0, MALE, 1, no_kwargs\<lparr>kw_intrest := Some 3\<rparr>),
         (0, MALE, 1, no_kwargs\<lparr>kw_intrest := Some 4\<rparr>)] init_state))) \<noteq> 2"
  by code_simp

subsection \<open>A call without an interest\<close>

lemma cached_lookup_stdout_update:
  "cached_lookup env t i (s\<lparr>stdout := X\<rparr>) =
     (fst (cached_lookup env t i s), (snd (cached_lookup env t i s))\<lparr>stdout := X\<rparr>)"
proof -
  obtain r u where ru: "\<forall>s. create_lookup_table env t i s =
             (r, pv_effect u [] (s\<lparr>rebuilds := rebuilds s @ [i]\<rparr>))"
    using create_lookup_table_effect by blast
  show ?thesis
    using ru by (cases r; cases u) (simp_all add: cached_lookup_def pv_effect_def)
qed

lemma cached_lookup_stdout: "stdout (snd (cached_lookup env t i s)) = stdout s"
proof -
  obtain r u where ru: "\<forall>s. create_lookup_table env t i s =
             (r, pv_effect u [] (s\<lparr>rebuilds := rebuilds s @ [i]\<rparr>))"
    using create_lookup_table_effect by blast
  show ?thesis
    using ru by (cases r; cases u) (simp_all add: cached_lookup_def pv_effect_def)
qed
lemma cached_lookup_stdoutD: "cached_lookup env t i s = (r, s') \<Longrightarrow> stdout s' = stdout s"
  using cached_lookup_stdout [of env t i s] by simp

lemma cf_undefined_partner_stdout:
  assumes "sex_insured \<in> {MALE, FEMALE}"
  shows "stdout (snd (cf_undefined_partner env t age sex_insured pa kw s)) =
           stdout (snd (hx_at_pensionage t sex_insured pa kw
             (case kw_intrest kw of
                None \<Rightarrow> s\<lparr>stdout := stdout s @ [default_intrest_msg]\<rparr> | Some i \<Rightarrow> s)))"
  using assms
  by (cases "kw_intrest kw")
    (auto simp: cf_undefined_partner_def split: sum.splits prod.splits option.splits
       dest: cached_lookup_stdoutD)

lemma hx_at_pensionage_kw_intrest:
  "kw_hx_pd kw \<noteq> Some ''ukv'' \<Longrightarrow>
   hx_at_pensionage t sex_insured pa (kw\<lparr>kw_intrest := x\<rparr>) s =
     hx_at_pensionage t sex_insured pa kw s"
  by (simp add: hx_at_pensionage_def)

lemma hx_at_pensionage_stdout:
  "stdout (snd (hx_at_pensionage t sex_insured pa kw s)) =
     stdout s @ (if kw_hx_pd kw = Some ''ukv'' \<and> ukv_lookup t sex_insured pa kw = None
                 then [default_hx_pd_msg] else [])"
  by (auto simp: hx_at_pensionage_def split: option.splits)

text \<open>
  C6. A call of \<open>cf_undefined_partner\<close> with a valid sex and no \<open>intrest\<close> prints the
  line \<open>default_intrest_msg\<close> and goes on with the interest 3: its result and its final
  state are those of the call with \<open>intrest=3\<close> made after the line was printed, so it
  returns a record whenever that call does, and \<open>self.intrest\<close> is 3 after a call that
  returns. For \<open>hx_pd = 'ukv'\<close> (product NPLLRU) the exchange table is read with
  \<open>kwargs['intrest']\<close>, which is absent: that call prints the second warning too and goes
  on as the call with \<open>hx_pd = 'one'\<close> does.
\<close>

theorem default_intrest_substituted:
  assumes "sex_insured \<in> {MALE, FEMALE}" and "kw_intrest kw = None"
    and "warnings = default_intrest_msg #
                      (if kw_hx_pd kw = Some ''ukv'' then [default_hx_pd_msg] else [])"
    and "kw3 = kw\<lparr>kw_intrest := Some 3,
                  kw_hx_pd := (if kw_hx_pd kw = Some ''ukv'' then Some ''one'' else kw_hx_pd kw)\<rparr>"
  shows "cf_undefined_partner env t age sex_insured pa kw s =
           cf_undefined_partner env t age sex_insured pa kw3 (s\<lparr>stdout := stdout s @ warnings\<rparr>) \<and>
         stdout (snd (cf_undefined_partner env t age sex_insured pa kw s)) = stdout s @ warnings \<and>
         (\<not> isl (fst (cf_undefined_partner env t age sex_insured pa kw s)) \<longrightarrow>
            self_intrest (snd (cf_undefined_partner env t age sex_insured pa kw s)) = Some 3)"
proof (intro conjI impI)
  show "cf_undefined_partner env t age sex_insured pa kw s =
           cf_undefined_partner env t age sex_insured pa kw3 (s\<lparr>stdout := stdout s @ warnings\<rparr>)"
  proof (cases "kw_hx_pd kw = Some ''ukv''")
    case True
    with assms show ?thesis
      by (simp add: cf_undefined_partner_def hx_at_pensionage_def ukv_lookup_def
          split: option.splits)
  next
    case False
    with assms show ?thesis
      by (simp add: cf_undefined_partner_def hx_at_pensionage_kw_intrest)
  qed
next
  have "ukv_lookup t sex_insured pa kw = None"
    using assms(2) by (simp add: ukv_lookup_def split: option.splits)
  then show "stdout (snd (cf_undefined_partner env t age sex_insured pa kw s)) = stdout s @ warnings"
    using assms by (simp add: cf_undefined_partner_stdout hx_at_pensionage_stdout)
next
  assume ok: "\<not> isl (fst (cf_undefined_partner env t age sex_insured pa kw s))"
  have "cf_undefined_partner env t age sex_insured pa kw s =
          (fst (cf_undefined_partner env t age sex_insured pa kw s),
           snd (cf_undefined_partner env t age sex_insured pa kw s))" by simp
  from cf_undefined_partner_cache(1) [OF this ok] assms(2)
  show "self_intrest (snd (cf_undefined_partner env t age sex_insured pa kw s)) = Some 3"
    by (simp add: requested_intrest_def)
qed

theorem default_intrest_substituted_witness:
  "\<not> isl (fst (cf_undefined_partner demo_settings demo_tables 0 MALE 1
                 (no_kwargs\<lparr>kw_hx_pd := Some ''non-exchangable''\<rparr>) init_state)) \<and>
   stdout (snd (cf_undefined_partner demo_settings demo_tables 0 MALE 1
                 (no_kwargs\<lparr>kw_hx_pd := Some ''non-exchangable''\<rparr>) init_state)) =
     [default_intrest_msg] \<and>
   self_intrest (snd (cf_undefined_partner demo_settings demo_tables 0 MALE 1
                 (no_kwargs\<lparr>kw_hx_pd := Some ''non-exchangable''\<rparr>) init_state)) = Some 3"
proof -
  let ?kw = "no_kwargs\<lparr>kw_hx_pd := Some ''non-exchangable''\<rparr>"
  have 1: "MALE \<in> {MALE, FEMALE}" by simp
  have 2: "kw_intrest ?kw = None" by (simp add: no_kwargs_def)
  have ok: "\<not> isl (fst (cf_undefined_partner demo_settings demo_tables 0 MALE 1 ?kw init_state))"
    by code_simp
  note sub = default_intrest_substituted [OF 1 2 refl refl,
      where env = demo_settings and t = demo_tables and age = 0 and pa = 1 and s = init_state]
  have out: "stdout (snd (cf_undefined_partner demo_settings demo_tables 0 MALE 1 ?kw init_state)) =
               [default_intrest_msg]"
    using sub [THEN conjunct2, THEN conjunct1] by (simp add: init_state_def)
  have key: "self_intrest (snd (cf_undefined_partner demo_settings demo_tables 0 MALE 1 ?kw
                                  init_state)) = Some 3"
    using sub [THEN conjunct2, THEN conjunct2] ok by blast
  from ok out key show ?thesis by blast
qed

subsection \<open>The legacy exchange table\<close>

text \<open>The method from the line that reads \<open>self.adjust\<close> on.\<close>

lemma cf_undefined_partner_unfold:
  assumes "sex_insured \<in> {MALE, FEMALE}"
    and "s1 = (case kw_intrest kw of
                 None \<Rightarrow> s\<lparr>stdout := stdout s @ [default_intrest_msg]\<rparr> | Some i \<Rightarrow> s)"
    and "hx_at_pensionage t sex_insured pa kw s1 = (Inr hx_at, s2)"
  shows "cf_undefined_partner env t age sex_insured pa kw s =
      (case adjust_of t sex_insured ''partner'' of
         Inl e \<Rightarrow> (Inl e, s2)
       | Inr adj \<Rightarrow>
           (case fst (cached_lookup env t (requested_intrest kw) s2) of
              Inl e \<Rightarrow> (Inl e, snd (cached_lookup env t (requested_intrest kw) s2))
            | Inr None \<Rightarrow> (Inl AttributeError, snd (cached_lookup env t (requested_intrest kw) s2))
            | Inr (Some lookup) \<Rightarrow>
                (bind (cf_till_pension_age env t lookup age sex_insured pa) (\<lambda>till.
                 bind (cf_after_pension_age env t lookup age sex_insured pa hx_at) (\<lambda>after.
                 Inr \<lparr>insurance_id = None, payments = till @ after,
                      cf_age = Some age, cf_pension_age = Some pa\<rparr>)),
                 snd (cached_lookup env t (requested_intrest kw) s2))))"
  using assms
  by (cases "kw_intrest kw")
    (simp_all add: cf_undefined_partner_def requested_intrest_def
       split: sum.splits prod.splits option.splits
       cong: sum.case_cong prod.case_cong option.case_cong)

lemma hx_at_pensionage_ukv_fallback:
  assumes "kw_hx_pd kw = Some ''ukv''" and "ukv_lookup t sex_insured pa kw = None"
  shows "hx_at_pensionage t sex_insured pa kw s =
           (Inr 1, s\<lparr>stdout := stdout s @ [default_hx_pd_msg]\<rparr>)"
  using assms by (simp add: hx_at_pensionage_def)

lemma hx_at_pensionage_one:
  "kw_hx_pd kw = Some ''one'' \<Longrightarrow> hx_at_pensionage t sex_insured pa kw s = (Inr 1, s)"
  by (simp add: hx_at_pensionage_def)

text \<open>
  C7. With \<open>hx_pd = 'ukv'\<close> and a lookup in the exchange table that fails (no table, no
  \<open>intrest\<close> keyword, no row for the key), \<open>hx_at_pensionage\<close> is 1 and the line
  \<open>default_hx_pd_msg\<close> is printed; the call then does what the call with \<open>hx_pd = 'one'\<close>
  does: same result (the same record when that call returns one) and same final state,
  but for the printed line.
\<close>

theorem exchange_lookup_fallback:
  assumes "sex_insured \<in> {MALE, FEMALE}" and "kw_hx_pd kw = Some ''ukv''"
    and "ukv_lookup t sex_insured pa kw = None"
    and "R = cf_undefined_partner env t age sex_insured pa (kw\<lparr>kw_hx_pd := Some ''one''\<rparr>) s"
  shows "hx_at_pensionage t sex_insured pa kw s =
           (Inr 1, s\<lparr>stdout := stdout s @ [default_hx_pd_msg]\<rparr>) \<and>
         cf_undefined_partner env t age sex_insured pa kw s =
           (fst R, (snd R)\<lparr>stdout := stdout (snd R) @ [default_hx_pd_msg]\<rparr>)"
proof
  show "hx_at_pensionage t sex_insured pa kw s =
           (Inr 1, s\<lparr>stdout := stdout s @ [default_hx_pd_msg]\<rparr>)"
    using assms(2,3) by (rule hx_at_pensionage_ukv_fallback)
next
  let ?kw1 = "kw\<lparr>kw_hx_pd := Some ''one''\<rparr>"
  let ?i = "requested_intrest kw"
  define s1 where "s1 = (case kw_intrest kw of
                 None \<Rightarrow> s\<lparr>stdout := stdout s @ [default_intrest_msg]\<rparr> | Some i \<Rightarrow> s)"
  let ?s2 = "s1\<lparr>stdout := stdout s1 @ [default_hx_pd_msg]\<rparr>"
  have i: "requested_intrest ?kw1 = ?i" by (simp add: requested_intrest_def)
  have s1': "s1 = (case kw_intrest ?kw1 of
                 None \<Rightarrow> s\<lparr>stdout := stdout s @ [default_intrest_msg]\<rparr> | Some i \<Rightarrow> s)"
    by (simp add: s1_def)
  have L: "cf_undefined_partner env t age sex_insured pa kw s = 
      (case adjust_of t sex_insured ''partner'' of
         Inl e \<Rightarrow> (Inl e, ?s2)
       | Inr adj \<Rightarrow>
           (case fst (cached_lookup env t ?i ?s2) of
              Inl e \<Rightarrow> (Inl e, snd (cached_lookup env t ?i ?s2))
            | Inr None \<Rightarrow> (Inl AttributeError, snd (cached_lookup env t ?i ?s2))
            | Inr (Some lookup) \<Rightarrow>
                (bind (cf_till_pension_age env t lookup age sex_insured pa) (\<lambda>till.
                 bind (cf_after_pension_age env t lookup age sex_insured pa 1) (\<lambda>after.
                 Inr \<lparr>insurance_id = None, payments = till @ after,
                      cf_age = Some age, cf_pension_age = Some pa\<rparr>)),
                 snd (cached_lookup env t ?i ?s2))))"
    by (rule cf_undefined_partner_unfold [OF assms(1) s1_def])
       (rule hx_at_pensionage_ukv_fallback [OF assms(2,3)])
  have R: "R = 
      (case adjust_of t sex_insured ''partner'' of
         Inl e \<Rightarrow> (Inl e, s1)
       | Inr adj \<Rightarrow>
           (case fst (cached_lookup env t ?i s1) of
              Inl e \<Rightarrow> (Inl e, snd (cached_lookup env t ?i s1))
            | Inr None \<Rightarrow> (Inl AttributeError, snd (cached_lookup env t ?i s1))
            | Inr (Some lookup) \<Rightarrow>
                (bind (cf_till_pension_age env t lookup age sex_insured pa) (\<lambda>till.
                 bind (cf_after_pension_age env t lookup age sex_insured pa 1) (\<lambda>after.
                 Inr \<lparr>insurance_id = None, payments = till @ after,
                      cf_age = Some age, cf_pension_age = Some pa\<rparr>)),
                 snd (cached_lookup env t ?i s1))))"
    unfolding assms(4) i [symmetric]
    by (rule cf_undefined_partner_unfold [OF assms(1) s1'])
       (simp add: hx_at_pensionage_one)
  show "cf_undefined_partner env t age sex_insured pa kw s =
           (fst R, (snd R)\<lparr>stdout := stdout (snd R) @ [default_hx_pd_msg]\<rparr>)"
    unfolding L R
    by (simp add: cached_lookup_stdout_update cached_lookup_stdout
        split: sum.splits option.splits)
qed

theorem exchange_lookup_fallback_witness:
  "\<not> isl (fst (cf_undefined_partner demo_settings demo_tables 0 MALE 1
                 (no_kwargs\<lparr>kw_intrest := Some 3, kw_hx_pd := Some ''ukv''\<rparr>) init_state)) \<and>
   stdout (snd (cf_undefined_partner demo_settings demo_tables 0 MALE 1
                 (no_kwargs\<lparr>kw_intrest := Some 3, kw_hx_pd := Some ''ukv''\<rparr>) init_state)) =
     [default_hx_pd_msg]"
proof -
  let ?kw = "no_kwargs\<lparr>kw_intrest := Some 3, kw_hx_pd := Some ''ukv''\<rparr>"
  let ?R = "cf_undefined_partner demo_settings demo_tables 0 MALE 1
              (?kw\<lparr>kw_hx_pd := Some ''one''\<rparr>) init_state"
  have 1: "MALE \<in> {MALE, FEMALE}" by simp
  have 2: "kw_hx_pd ?kw = Some ''ukv''" by simp
  have 3: "ukv_lookup demo_tables MALE 1 ?kw = None"
    by (simp add: ukv_lookup_def demo_tables_def)
  have ok: "\<not> isl (fst ?R)" by code_simp
  have out: "stdout (snd ?R) = []" by code_simp
  from exchange_lookup_fallback [OF 1 2 3 refl,
      where env = demo_settings and age = 0 and s = init_state] ok out
  show ?thesis by simp
qed

subsection \<open>Present value of the undefined partner\<close>

lemma foldl_fadd_Some: "foldl fadd (Some a) (map Some xs) = Some (a + sum_list xs)"
  by (induction xs arbitrary: a) (simp_all add: add.assoc)

lemma series_sum_Some: "series_sum (map (\<lambda>y. Some (g y)) [0..<N]) = Some (\<Sum>y<N. g y)"
proof -
  have "series_sum (map (\<lambda>y. Some (g y)) [0..<N]) = series_sum (map Some (map g [0..<N]))"
    by (simp add: comp_def)
  also have "\<dots> = Some (sum_list (map g [0..<N]))"
    by (simp add: series_sum_def foldl_fadd_Some del: map_map)
  also have "sum_list (map g [0..<N]) = (\<Sum>y<N. g y)"
    by (simp add: interv_sum_list_conv_sum_set_nat atLeast0LessThan)
  finally show ?thesis .
qed

lemma map2_replicate: "length ys = n \<Longrightarrow> map2 f (replicate n x) ys = map (f x) ys"
  by (auto simp: list_eq_iff_nth_eq)

lemma series_mul_Some:
  "series_mul (map Some ps) (map (\<lambda>y. Some (d y)) [0..<length ps]) =
     map (\<lambda>y. Some (ps ! y * d y)) [0..<length ps]"
  by (simp add: series_mul_def series_binop_def)

lemma discount_pos: "- 100 < r \<Longrightarrow> 0 < discount r"
  by (simp add: discount_def)

lemma pow_year_discount:
  assumes "- 100 < r"
  shows "pow_year (discount r) y = Some ((1 + r / 100) powr (- real y))"
proof -
  have pos: "0 < 1 + r / 100" using assms by simp
  have "discount r ^ y = inverse ((1 + r / 100) ^ y)"
    by (simp add: discount_def power_one_over inverse_eq_divide)
  also have "\<dots> = (1 + r / 100) powr (- real y)"
    using pos by (simp add: powr_minus powr_realpow)
  finally show ?thesis by (simp add: pow_year_def)
qed

lemma pow_half_year_discount:
  assumes "- 100 < r"
  shows "pow_half_year (discount r) y = Some ((1 + r / 100) powr (- (real y + 1 / 2)))"
proof -
  have "discount r = inverse (1 + r / 100)"
    by (simp add: discount_def inverse_eq_divide)
  then have "discount r powr (real y + 1 / 2) = (1 + r / 100) powr (- (real y + 1 / 2))"
    by (simp only: inverse_powr powr_minus)
  then show ?thesis using discount_pos [OF assms] by (simp add: pow_half_year_def)
qed

text \<open>
  C5. For a record tagged NPLL-O, NPLLRS or NPLLRU with the fields \<open>age\<close> and
  \<open>pension_age\<close>, payments without NaN and an interest \<open>r\<close> above -100, \<open>pv\<close> multiplies
  the payment of year \<open>y\<close> by \<open>(1 + r/100)\<close> to the power \<open>-(y + 0.5)\<close> when
  \<open>y \<le> pension_age - age\<close> and to the power \<open>-y\<close> in the later years, sums, and rounds
  to \<open>self.params['round']\<close> decimals.
\<close>

theorem pv_undefined_partner_discounting:
  assumes "insurance_id c = Some iid" and "iid \<in> {''NPLL-O'', ''NPLLRS'', ''NPLLRU''}"
    and "cf_age c = Some a" and "cf_pension_age c = Some pa"
    and "payments c = map Some ps" and "- 100 < r"
  shows "fst (pv t c r s) =
           Inr (py_round
                  (Some (\<Sum>y<length ps. ps ! y *
                           (if int y \<le> pa - a then (1 + r / 100) powr (- (real y + 1 / 2))
                            else (1 + r / 100) powr (- real y))))
                  (params_round t))"
proof -
  let ?d = "\<lambda>y. if int y \<le> pa - a then (1 + r / 100) powr (- (real y + 1 / 2))
                 else (1 + r / 100) powr (- real y)"
  have factors:
    "map2 (\<lambda>r y. if int y \<le> pa - a then pow_half_year (discount r) y else pow_year (discount r) y)
       (x_to_series r (length (payments c))) [0..<length (payments c)] =
     map (\<lambda>y. Some (?d y)) [0..<length ps]"
    using assms(5,6)
    by (simp add: x_to_series_def map2_replicate pow_year_discount pow_half_year_discount)
  have "fst (pv t c r s) =
          Inr (py_round (series_sum (series_mul (payments c) (map (\<lambda>y. Some (?d y)) [0..<length ps])))
                 (params_round t))"
    using assms(1-4) factors by (auto simp: pv_def Let_def)
  then show ?thesis
    using assms(5) by (simp add: series_mul_Some series_sum_Some)
qed

theorem pv_undefined_partner_discounting_witness:
  "fst (pv demo_tables
          \<lparr>insurance_id = Some ''NPLL-O'', payments = [Some 2, Some 3, Some 5],
           cf_age = Some 40, cf_pension_age = Some 41\<rparr> 3 init_state) =
     Inr (py_round (Some (2 * (103 / 100) powr (- (1 / 2)) + 3 * (103 / 100) powr (- (3 / 2))
                          + 5 * (103 / 100) powr (- 2))) 2)"
proof -
  let ?c = "\<lparr>insurance_id = Some ''NPLL-O'', payments = [Some 2, Some 3, Some (5::real)],
           cf_age = Some 40, cf_pension_age = Some 41\<rparr>"
  have 1: "insurance_id ?c = Some ''NPLL-O''" by simp
  have 2: "''NPLL-O'' \<in> {''NPLL-O'', ''NPLLRS'', ''NPLLRU''}" by simp
  have 3: "cf_age ?c = Some 40" and 4: "cf_pension_age ?c = Some 41" by simp_all
  have 5: "payments ?c = map Some [2, 3, 5]" by simp
  have 6: "- 100 < (3::real)" by simp
  from pv_undefined_partner_discounting [OF 1 2 3 4 5 6, of demo_tables init_state]
  show ?thesis
    by (simp add: demo_tables_def lessThan_nat_numeral lessThan_Suc add.commute add.left_commute)
qed

subsection \<open>The cache of the factor matrix\<close>

lemma pv_effect_fields [simp]:
  "self_intrest (pv_effect u out s) = self_intrest s"
  "self_pension_age (pv_effect u out s) = self_pension_age s"
  "self_cfs (pv_effect u out s) = self_cfs s"
  "cf_calls (pv_effect u out s) = cf_calls s"
  by (cases u; simp add: pv_effect_def)+

text \<open>The matrix \<open>calculate_factors\<close> makes of a frame and its column \<open>tar\<close>.\<close>

lemma tabulate_factors_fresh:
  assumes "col_cf f = Some cfl" and "\<not> indexed f"
    and "\<forall>s. smap (\<lambda>c. pv t c i) cfl s = (Inr tar, pv_effect u out s)"
    and "m = f\<lparr>col_tar := Some tar, indexed := True, col_cf := None\<rparr>"
  shows "tabulate_factors t i aliased f s =
           (Inr m, (write_through aliased m (pv_effect u out s))\<lparr>self_factors := Some m\<rparr>)"
  using assms by (simp add: tabulate_factors_def write_through_def Let_def)

lemma tabulate_factors_dropped:
  "col_cf f = None \<Longrightarrow> tabulate_factors t i aliased f s = (Inl KeyError, s)"
  by (simp add: tabulate_factors_def)

lemma tabulate_factors_success:
  assumes "tabulate_factors t i aliased f s = (r, s')" and "\<not> isl r"
  shows "\<exists>cfl tar u out. col_cf f = Some cfl \<and> \<not> indexed f \<and>
           (\<forall>s. smap (\<lambda>c. pv t c i) cfl s = (Inr tar, pv_effect u out s))"
proof -
  from assms obtain cfl where cfl: "col_cf f = Some cfl"
    by (cases "col_cf f") (auto simp: tabulate_factors_def)
  obtain rr u out where eff: "\<forall>s. smap (\<lambda>c. pv t c i) cfl s = (rr, pv_effect u out s)"
    using smap_pv_effect by blast
  from assms cfl eff obtain tar where "rr = Inr tar"
    by (cases rr) (auto simp: tabulate_factors_def)
  moreover from assms cfl eff calculation have "\<not> indexed f"
    by (auto simp: tabulate_factors_def Let_def split: if_splits)
  ultimately show ?thesis using cfl eff by blast
qed

lemma calculate_cashflows_success:
  assumes "calculate_cashflows env t pa i s = (Inr df, s1)"
  shows "\<exists>cfl. col_cf df = Some cfl \<and> \<not> indexed df \<and> self_cfs s1 = Some df \<and>
           self_intrest s1 = Some i \<and> self_pension_age s1 = Some pa"
  using assms
  by (auto simp: calculate_cashflows_def Let_def split: prod.splits sum.splits)

lemma calculate_factors_hit_dropped:
  assumes "self_intrest s = Some i" and "self_pension_age s = Some pa"
    and "self_cfs s = Some m" and "col_cf m = None"
  shows "calculate_factors env t i pa s = (Inl KeyError, s)"
  using assms by (simp add: calculate_factors_def tabulate_factors_dropped)

lemma calculate_factors_hit_success:
  assumes "self_intrest s = Some i" and "self_pension_age s = Some pa"
    and "calculate_factors env t i pa s = (r, s')" and "\<not> isl r"
  shows "\<exists>m. r = Inr m \<and> col_cf m = None \<and> self_cfs s' = Some m \<and>
           self_intrest s' = Some i \<and> self_pension_age s' = Some pa"
proof -
  from assms obtain f where f: "self_cfs s = Some f"
    and tab: "tabulate_factors t i True f s = (r, s')"
    by (cases "self_cfs s") (auto simp: calculate_factors_def)
  from tabulate_factors_success [OF tab assms(4)]
  obtain cfl tar u out where "col_cf f = Some cfl" "\<not> indexed f"
    "\<forall>s. smap (\<lambda>c. pv t c i) cfl s = (Inr tar, pv_effect u out s)" by blast
  from tabulate_factors_fresh [OF this refl, of True s] tab assms(1,2)
  show ?thesis by (auto simp: write_through_def)
qed

text \<open>
  A call that computes the cash flows anew leaves a cache that the next call with the
  same arguments reads, returning the same matrix without a call of \<open>cf\<close>; the call
  after that one raises.
\<close>

lemma calculate_factors_miss_then_hit:
  assumes "\<not> (self_intrest s = Some i \<and> self_pension_age s = Some pa)"
    and "calculate_factors env t i pa s = (r, s1)" and "\<not> isl r"
  shows "fst (calculate_factors env t i pa s1) = r"
    and "cf_calls (snd (calculate_factors env t i pa s1)) = cf_calls s1"
    and "fst (calculate_factors env t i pa (snd (calculate_factors env t i pa s1))) = Inl KeyError"
    and "self_intrest s1 = Some i" and "self_pension_age s1 = Some pa"
proof -
  from assms obtain df sa where cc: "calculate_cashflows env t pa i s = (Inr df, sa)"
    and tab: "tabulate_factors t i False df (sa\<lparr>self_cfs := Some df\<rparr>) = (r, s1)"
    by (auto simp: calculate_factors_def split: prod.splits sum.splits if_splits)
  from calculate_cashflows_success [OF cc]
  have sa: "self_cfs sa = Some df" "self_intrest sa = Some i" "self_pension_age sa = Some pa"
    by auto
  from tabulate_factors_success [OF tab assms(3)]
  obtain cfl tar u out where fr: "col_cf df = Some cfl" "\<not> indexed df"
    "\<forall>s. smap (\<lambda>c. pv t c i) cfl s = (Inr tar, pv_effect u out s)" by blast
  define m where "m = df\<lparr>col_tar := Some tar, indexed := True, col_cf := None\<rparr>"
  from tabulate_factors_fresh [OF fr m_def, of False "sa\<lparr>self_cfs := Some df\<rparr>"] tab
  have r: "r = Inr m"
    and s1: "s1 = (pv_effect u out (sa\<lparr>self_cfs := Some df\<rparr>))\<lparr>self_factors := Some m\<rparr>"
    by (simp_all add: write_through_def)
  have hit1: "self_intrest s1 = Some i" "self_pension_age s1 = Some pa" "self_cfs s1 = Some df"
    using s1 sa by simp_all
  have second: "calculate_factors env t i pa s1 =
      (Inr m, (write_through True m (pv_effect u out s1))\<lparr>self_factors := Some m\<rparr>)"
    using hit1 tabulate_factors_fresh [OF fr m_def, of True s1]
    by (simp add: calculate_factors_def)
  show "fst (calculate_factors env t i pa s1) = r" using second r by simp
  show "cf_calls (snd (calculate_factors env t i pa s1)) = cf_calls s1"
    using second by (simp add: write_through_def)
  have "col_cf m = None" by (simp add: m_def)
  then show "fst (calculate_factors env t i pa (snd (calculate_factors env t i pa s1))) = Inl KeyError"
    using second hit1
    by (simp add: write_through_def calculate_factors_hit_dropped)
  show "self_intrest s1 = Some i" and "self_pension_age s1 = Some pa"
    using hit1 by simp_all
qed

text \<open>
  C9. When \<open>calculate_factors\<close> finds its arguments in \<open>self.intrest\<close> and
  \<open>self.pension_age\<close> and returns, the matrix it returns is the cached table
  \<open>self.cfs\<close> itself, which has lost its column \<open>cf\<close>; the next call with the same
  arguments raises \<open>KeyError\<close> and changes nothing.
\<close>

theorem cache_hit_drops_cf_column:
  assumes "self_intrest s = Some i" and "self_pension_age s = Some pa"
    and "calculate_factors env t i pa s = (r, s')" and "\<not> isl r"
  shows "\<exists>m. r = Inr m \<and> self_cfs s' = Some m \<and> col_cf m = None \<and>
           calculate_factors env t i pa s' = (Inl KeyError, s')"
proof -
  from calculate_factors_hit_success [OF assms]
  obtain m where m: "r = Inr m" "col_cf m = None" "self_cfs s' = Some m"
    "self_intrest s' = Some i" "self_pension_age s' = Some pa" by blast
  from calculate_factors_hit_dropped [OF m(4,5,3,2)] m show ?thesis by blast
qed

lemma demo_first_call:
  "\<not> isl (fst (calculate_factors demo_settings demo_tables 3 1 init_state))"
  by code_simp

theorem cache_hit_drops_cf_column_witness:
  "\<exists>m. fst (calculate_factors demo_settings demo_tables 3 1
              (snd (calculate_factors demo_settings demo_tables 3 1 init_state))) = Inr m \<and>
       self_cfs (snd (calculate_factors demo_settings demo_tables 3 1
              (snd (calculate_factors demo_settings demo_tables 3 1 init_state)))) = Some m \<and>
       col_cf m = None \<and>
       fst (calculate_factors demo_settings demo_tables 3 1
             (snd (calculate_factors demo_settings demo_tables 3 1
              (snd (calculate_factors demo_settings demo_tables 3 1 init_state))))) = Inl KeyError"
proof -
  let ?c1 = "calculate_factors demo_settings demo_tables 3 1 init_state"
  let ?c2 = "calculate_factors demo_settings demo_tables 3 1 (snd ?c1)"
  have miss: "\<not> (self_intrest init_state = Some 3 \<and> self_pension_age init_state = Some 1)"
    by (simp add: init_state_def)
  have c1: "?c1 = (fst ?c1, snd ?c1)" by simp
  have ok2: "\<not> isl (fst ?c2)"
    using calculate_factors_miss_then_hit(1) [OF miss c1 demo_first_call] demo_first_call by simp
  have hit: "self_intrest (snd ?c1) = Some 3" "self_pension_age (snd ?c1) = Some 1"
    using calculate_factors_miss_then_hit(4,5) [OF miss c1 demo_first_call] by simp_all
  have c2: "?c2 = (fst ?c2, snd ?c2)" by simp
  from cache_hit_drops_cf_column [OF hit c2 ok2] show ?thesis by auto
qed

text \<open>
  C8. The claim is that of two successive calls of \<open>calculate_factors\<close> with the same
  arguments the second returns the matrix of the first. On the small tariff the first
  call returns a matrix and the second the same one, but the third call, the second of
  the two successive calls that the second and the third are, raises \<open>KeyError\<close>.
\<close>

theorem third_calculate_factors_raises:
  "\<not> isl (fst (calculate_factors demo_settings demo_tables 3 1 init_state)) \<and>
   fst (calculate_factors demo_settings demo_tables 3 1
          (snd (calculate_factors demo_settings demo_tables 3 1 init_state))) =
     fst (calculate_factors demo_settings demo_tables 3 1 init_state) \<and>
   fst (calculate_factors demo_settings demo_tables 3 1
          (snd (calculate_factors demo_settings demo_tables 3 1
             (snd (calculate_factors demo_settings demo_tables 3 1 init_state))))) =
     Inl KeyError"
proof -
  let ?c1 = "calculate_factors demo_settings demo_tables 3 1 init_state"
  have miss: "\<not> (self_intrest init_state = Some 3 \<and> self_pension_age init_state = Some 1)"
    by (simp add: init_state_def)
  have c1: "?c1 = (fst ?c1, snd ?c1)" by simp
  from calculate_factors_miss_then_hit(1,3) [OF miss c1 demo_first_call] demo_first_call
  show ?thesis by blast
qed

end
